theory Spec2Isabelle
  imports Complex_Main
begin

section \<open>The displacement finite element \<open>UelDisplacement<nDim, nNodes>\<close>\<close>

text \<open>
  A shallow embedding of \<^verbatim>\<open>include/uelDisplacement.h\<close>.

  \<^item> A \<^verbatim>\<open>double\<close> is a \<open>real\<close>: rounding, infinities and NaN are not modelled. Every
    statement below is about which operands the element combines with which operation
    and where it stores the result.
  \<^item> Eigen vectors are lists, Eigen matrices are lists of rows. Eigen's sizes are fixed
    by the template parameters, so shapes always agree in the source; on lists a shape
    mismatch truncates.
  \<^item> The persistent state buffer is owned by the caller and the element only holds
    pointers into it (\<^verbatim>\<open>mVector6\<close> is an \<^verbatim>\<open>Eigen::Map\<close>). Memory is therefore an
    explicit store \<open>memory\<close> from addresses to doubles, an address counts doubles, and a
    view is the address of its first component, \<open>None\<close> for \<^verbatim>\<open>nullptr\<close>.
  \<^item> Dereferencing a null pointer, indexing \<^verbatim>\<open>gaussPts\<close> out of range and dividing by
    zero are undefined behaviour in the source; the model returns an \<open>error\<close> there.
  \<^item> The headers \<^verbatim>\<open>bft*.h\<close>, \<^verbatim>\<open>userLibrary.h\<close> and Eigen are not part of the source. What
    the element calls from them is a parameter of the model: the records
    \<open>geometryElement\<close>, \<open>hypoElastic\<close> and \<open>numerics\<close>.
\<close>

subsection \<open>Vectors, matrices, memory\<close>

type_synonym vec = "real list"
type_synonym mat = "real list list"
type_synonym ptr = int
type_synonym memory = "int \<Rightarrow> real"

definition dot :: "vec \<Rightarrow> vec \<Rightarrow> real" where
  "dot xs ys = sum_list (map2 (*) xs ys)"

definition mat_vec :: "mat \<Rightarrow> vec \<Rightarrow> vec" where
  "mat_vec m v = map (\<lambda>row. dot row v) m"

definition mat_mul :: "mat \<Rightarrow> mat \<Rightarrow> mat" where
  "mat_mul a b = map (\<lambda>row. map (\<lambda>col. dot row col) (transpose b)) a"

definition mat_scale :: "mat \<Rightarrow> real \<Rightarrow> mat" where
  "mat_scale m s = map (map (\<lambda>x. x * s)) m"

definition vec_scale :: "vec \<Rightarrow> real \<Rightarrow> vec" where
  "vec_scale v s = map (\<lambda>x. x * s) v"

definition vec_add :: "vec \<Rightarrow> vec \<Rightarrow> vec" where
  "vec_add xs ys = map2 (+) xs ys"

definition vec_sub :: "vec \<Rightarrow> vec \<Rightarrow> vec" where
  "vec_sub xs ys = map2 (-) xs ys"

definition mat_add :: "mat \<Rightarrow> mat \<Rightarrow> mat" where
  "mat_add a b = map2 vec_add a b"

text \<open>The six doubles a \<^verbatim>\<open>mVector6\<close> at address \<open>p\<close> maps.\<close>

definition read6 :: "memory \<Rightarrow> ptr \<Rightarrow> vec" where
  "read6 h p = map (\<lambda>k. h (p + int k)) [0..<6]"

text \<open>
  Storing a vector through a \<^verbatim>\<open>mVector6\<close>, or through the \<^verbatim>\<open>double*\<close> of its data: the
  cells \<open>p, \<dots>, p + 5\<close> take the components of \<open>v\<close>; a component \<open>v\<close> does not have is
  a cell nobody wrote.
\<close>

definition write6 :: "memory \<Rightarrow> ptr \<Rightarrow> vec \<Rightarrow> memory" where
  "write6 h p v =
     (\<lambda>a. if p \<le> a \<and> a < p + 6 \<and> nat (a - p) < length v then v ! nat (a - p) else h a)"

subsection \<open>Integer conversions\<close>

text \<open>
  \<^verbatim>\<open>int\<close> is 32 bits and \<^verbatim>\<open>size_t\<close> 64 bits. An \<^verbatim>\<open>int\<close> meeting a \<^verbatim>\<open>size_t\<close> in an
  arithmetic expression is converted to \<^verbatim>\<open>size_t\<close>, and a \<^verbatim>\<open>size_t\<close> stored in an
  \<^verbatim>\<open>int\<close> keeps its low 32 bits as a two's complement value.
\<close>

definition to_size_t :: "int \<Rightarrow> int" where
  "to_size_t x = x mod 2 ^ 64"

definition to_int :: "int \<Rightarrow> int" where
  "to_int x = (x + 2 ^ 31) mod 2 ^ 32 - 2 ^ 31"

definition int_range :: "int \<Rightarrow> bool" where
  "int_range x = (- (2 ^ 31) \<le> x \<and> x < 2 ^ 31)"

subsection \<open>Data model\<close>

datatype SectionType = UniaxialStress | PlaneStress | PlaneStrain | Solid

text \<open>
  \<^verbatim>\<open>BftElement::StateTypes\<close> and \<^verbatim>\<open>BftElement::DistributedLoadTypes\<close> are declared in
  \<^verbatim>\<open>bftElement.h\<close>. The element names one enumerator of each; every other enumerator
  is \<open>OtherState\<close> or \<open>OtherLoad\<close> with its number.
\<close>

datatype StateTypes = GeostaticStress | OtherState nat

datatype DistributedLoadTypes = Pressure | OtherLoad nat

datatype error =
    NullPointer
  | OutOfRange
  | DivisionByZero
  | InvalidArgument string
  | LookupFailure

record Geometry =
  J :: mat
  JInv :: mat
  detJ :: real
  dNdXi :: mat
  dNdX :: mat
  B :: mat
  intVol :: real

text \<open>
  \<open>'m\<close> is the state of a \<^verbatim>\<open>BftMaterialHypoElastic\<close> object. \<open>material\<close> and
  \<open>geometry\<close> are \<^verbatim>\<open>unique_ptr\<close>s, \<open>stress\<close> and \<open>strain\<close> are the data pointers of
  the two \<^verbatim>\<open>mVector6\<close> views.
\<close>

record 'm GaussPt =
  xi :: vec
  weight :: real
  material :: "'m option"
  stress :: "ptr option"
  strain :: "ptr option"
  geometry :: "Geometry option"

definition nRequiredStateVars :: int where
  "nRequiredStateVars = 6 + 6"

text \<open>
  \<open>'g\<close> is the state of the \<^verbatim>\<open>BftGeometryElement<nDim, nNodes>\<close> base object (it holds
  the nodal coordinates and the shape). \<open>elementProperties\<close> is a read-only view of
  caller-owned doubles and is modelled by what it shows.
\<close>

record ('m, 'g) UelDisplacement =
  nDim :: nat
  nNodes :: nat
  parent :: 'g
  elementProperties :: vec
  elLabel :: int
  sectionType :: SectionType
  gaussPts :: "'m GaussPt list"

subsection \<open>What the element calls\<close>

text \<open>The members of \<^verbatim>\<open>BftGeometryElement\<close> and of \<^verbatim>\<open>FiniteElement::BoundaryElement\<close>.\<close>

record 'g geometryElement =
  geo_initializeYourself :: "'g \<Rightarrow> vec \<Rightarrow> 'g"
  geo_coordinates :: "'g \<Rightarrow> vec"
  geo_N :: "'g \<Rightarrow> vec \<Rightarrow> vec"
  geo_NB :: "'g \<Rightarrow> vec \<Rightarrow> mat"
  geo_dNdXi :: "'g \<Rightarrow> vec \<Rightarrow> mat"
  geo_Jacobian :: "'g \<Rightarrow> mat \<Rightarrow> mat"
  geo_dNdX :: "'g \<Rightarrow> mat \<Rightarrow> mat \<Rightarrow> mat"
  geo_B :: "'g \<Rightarrow> mat \<Rightarrow> mat"
  computeNormalLoadVector :: "'g \<Rightarrow> int \<Rightarrow> nat \<Rightarrow> vec"
  assembleIntoParentVector :: "'g \<Rightarrow> int \<Rightarrow> nat \<Rightarrow> vec \<Rightarrow> vec \<Rightarrow> vec"

text \<open>
  The members of \<^verbatim>\<open>BftMaterialHypoElastic\<close> and the factory of \<^verbatim>\<open>userLibrary\<close>. A stress
  update takes the material, the stress behind the \<^verbatim>\<open>double*\<close>, the strain increment,
  \<^verbatim>\<open>time\<close>, \<^verbatim>\<open>dT\<close> and the incoming \<^verbatim>\<open>pNewDT\<close>; it gives back the material, the
  stress it left behind the pointer, the 6x6 tangent and the outgoing \<^verbatim>\<open>pNewDT\<close>.
\<close>

type_synonym 'm stressUpdate =
  "'m \<Rightarrow> vec \<Rightarrow> vec \<Rightarrow> vec \<Rightarrow> real \<Rightarrow> real \<Rightarrow> 'm \<times> vec \<times> mat \<times> real"

record 'm hypoElastic =
  bftMaterialFactory :: "int \<Rightarrow> vec \<Rightarrow> int \<Rightarrow> int \<Rightarrow> nat \<Rightarrow> 'm option"
  mat_getNumberOfRequiredStateVars :: "'m \<Rightarrow> int"
  mat_assignStateVars :: "'m \<Rightarrow> ptr \<Rightarrow> int \<Rightarrow> 'm"
  mat_setCharacteristicElementLength :: "'m \<Rightarrow> real \<Rightarrow> 'm"
  computeStress :: "'m stressUpdate"
  computePlaneStress :: "'m stressUpdate"
  computeUniaxialStress :: "'m stressUpdate"
  mat_nStateVars :: "'m \<Rightarrow> int"
  mat_stateVars :: "'m \<Rightarrow> ptr option"
  mat_getPermanentResultPointer :: "'m \<Rightarrow> string \<Rightarrow> int \<Rightarrow> error + ptr option \<times> int"

text \<open>\<^verbatim>\<open>bft::mechanics\<close>, \<^verbatim>\<open>bft::Vgt\<close>, \<^verbatim>\<open>bft::Math\<close>, Eigen and \<^verbatim>\<open><cmath>\<close>.\<close>

record numerics =
  getUniaxialStressTangent :: "mat \<Rightarrow> real"
  getPlaneStressTangent :: "mat \<Rightarrow> mat"
  getPlaneStrainTangent :: "mat \<Rightarrow> mat"
  planeVoigtToVoigt :: "vec \<Rightarrow> vec"
  voigtToPlaneVoigt :: "vec \<Rightarrow> vec"
  linearInterpolation :: "real \<Rightarrow> real \<Rightarrow> real \<Rightarrow> real \<Rightarrow> real \<Rightarrow> real"
  mat_inverse :: "mat \<Rightarrow> mat"
  mat_determinant :: "mat \<Rightarrow> real"
  std_cbrt :: "real \<Rightarrow> real"
  std_sqrt :: "real \<Rightarrow> real"

text \<open>
  Modelled from the spec: \<^verbatim>\<open>Vgt::VoigtSize\<close> is declared in \<^verbatim>\<open>bftVoigt.h\<close>, which is not
  part of the source; the spec gives the named results \<^verbatim>\<open>"stress"\<close> and \<^verbatim>\<open>"strain"\<close>
  length 6 each.
\<close>

definition Vgt_VoigtSize :: int where
  "Vgt_VoigtSize = 6"

subsection \<open>State and property binding\<close>

text \<open>
  \<^verbatim>\<open>( gaussPts[0].material->getNumberOfRequiredStateVars() + 12 ) * gaussPts.size()\<close>:
  the sum is an \<^verbatim>\<open>int\<close>, the product with the \<^verbatim>\<open>size_t\<close> is a \<^verbatim>\<open>size_t\<close>, the result
  is returned as an \<^verbatim>\<open>int\<close>.
\<close>

definition getNumberOfRequiredStateVars ::
  "'m hypoElastic \<Rightarrow> ('m, 'g) UelDisplacement \<Rightarrow> error + int" where
  "getNumberOfRequiredStateVars M el =
     (case gaussPts el of
        [] \<Rightarrow> Inl OutOfRange
      | gp # _ \<Rightarrow>
          (case material gp of
             None \<Rightarrow> Inl NullPointer
           | Some m \<Rightarrow>
               Inr (to_int (to_size_t
                 (to_size_t (mat_getNumberOfRequiredStateVars M m + nRequiredStateVars)
                    * int (length (gaussPts el)))))))"

text \<open>
  One turn of the loop of \<^verbatim>\<open>assignStateVars\<close>, for Gauss point number \<open>i\<close>. The offset
  \<^verbatim>\<open>i * ( nStateVarsMaterial + GaussPt::nRequiredStateVars )\<close> is a \<^verbatim>\<open>size_t\<close>.
\<close>

definition blockOffset :: "int \<Rightarrow> nat \<Rightarrow> int" where
  "blockOffset nMat i =
     to_size_t (int i * to_size_t (nMat + nRequiredStateVars))"

definition assignGaussPt ::
  "'m hypoElastic \<Rightarrow> ptr \<Rightarrow> int \<Rightarrow> nat \<Rightarrow> 'm GaussPt \<Rightarrow> error + 'm GaussPt" where
  "assignGaussPt M stateVars nMat i gpt =
     (case material gpt of
        None \<Rightarrow> Inl NullPointer
      | Some m \<Rightarrow>
          Inr (gpt\<lparr>
            material := Some (mat_assignStateVars M m
              (stateVars + blockOffset nMat i) nMat),
            stress := Some (stateVars + nMat + blockOffset nMat i),
            strain := Some (stateVars + nMat + blockOffset nMat i + 6)\<rparr>))"

fun assignLoop ::
  "'m hypoElastic \<Rightarrow> ptr \<Rightarrow> int \<Rightarrow> nat \<Rightarrow> 'm GaussPt list \<Rightarrow> error + 'm GaussPt list" where
  "assignLoop M stateVars n i [] = Inr []"
| "assignLoop M stateVars n i (gpt # rest) =
     (case assignGaussPt M stateVars n i gpt of
        Inl e \<Rightarrow> Inl e
      | Inr gpt' \<Rightarrow>
          (case assignLoop M stateVars n (Suc i) rest of
             Inl e \<Rightarrow> Inl e
           | Inr rest' \<Rightarrow> Inr (gpt' # rest')))"

text \<open>
  \<^verbatim>\<open>nStateVars / gaussPts.size()\<close> divides two \<^verbatim>\<open>size_t\<close>, the subtraction of 12 stays
  in \<^verbatim>\<open>size_t\<close> and the result is stored in an \<^verbatim>\<open>int\<close>. Nothing compares
  \<^verbatim>\<open>nStateVars\<close> with what the material asks for.
\<close>

definition nStateVarsMaterial :: "int \<Rightarrow> nat \<Rightarrow> int" where
  "nStateVarsMaterial nStateVars n =
     to_int (to_size_t (to_size_t nStateVars div int n - nRequiredStateVars))"

definition assignStateVars ::
  "'m hypoElastic \<Rightarrow> ('m, 'g) UelDisplacement \<Rightarrow> ptr \<Rightarrow> int \<Rightarrow> error + ('m, 'g) UelDisplacement" where
  "assignStateVars M el stateVars nStateVars =
     (if gaussPts el = [] then Inl DivisionByZero
      else
        (case assignLoop M stateVars
                (nStateVarsMaterial nStateVars (length (gaussPts el))) 0 (gaussPts el) of
           Inl e \<Rightarrow> Inl e
         | Inr gps \<Rightarrow> Inr (el\<lparr>gaussPts := gps\<rparr>)))"

text \<open>\<^verbatim>\<open>assignProperty( const ElementProperties& )\<close>: the view is re-pointed.\<close>

definition assignProperty :: "('m, 'g) UelDisplacement \<Rightarrow> vec \<Rightarrow> ('m, 'g) UelDisplacement" where
  "assignProperty el props = el\<lparr>elementProperties := props\<rparr>"

text \<open>\<^verbatim>\<open>assignProperty( const BftMaterialSection& )\<close>: one material per Gauss point.\<close>

definition assignMaterialSection ::
  "'m hypoElastic \<Rightarrow> ('m, 'g) UelDisplacement \<Rightarrow> int \<Rightarrow> vec \<Rightarrow> int \<Rightarrow> ('m, 'g) UelDisplacement" where
  "assignMaterialSection M el materialCode materialProperties nMaterialProperties =
     el\<lparr>gaussPts :=
       map (\<lambda>(i, gpt). gpt\<lparr>material :=
              bftMaterialFactory M materialCode materialProperties nMaterialProperties (elLabel el) i\<rparr>)
           (enumerate 0 (gaussPts el))\<rparr>"

subsection \<open>Result access\<close>

definition getPermanentResultPointer ::
  "'m hypoElastic \<Rightarrow> ('m, 'g) UelDisplacement \<Rightarrow> string \<Rightarrow> int \<Rightarrow> int \<Rightarrow> error + ptr option \<times> int" where
  "getPermanentResultPointer M el resultName gaussPt resultLength =
     (if gaussPt < 0 \<or> int (length (gaussPts el)) \<le> gaussPt then Inl OutOfRange
      else
        let gp = gaussPts el ! nat gaussPt in
        if resultName = ''stress'' then Inr (stress gp, Vgt_VoigtSize)
        else if resultName = ''strain'' then Inr (strain gp, Vgt_VoigtSize)
        else
          (case material gp of
             None \<Rightarrow> Inl NullPointer
           | Some m \<Rightarrow>
               if resultName = ''sdv'' then Inr (mat_stateVars M m, mat_nStateVars M m)
               else mat_getPermanentResultPointer M m resultName resultLength))"

subsection \<open>Initialization\<close>

text \<open>
  The body of the loop of \<^verbatim>\<open>initializeYourself\<close>. \<^verbatim>\<open>elementProperties[0]\<close> is read
  before the material is called, so an empty view fails first.
\<close>

definition initializeGaussPt ::
  "'g geometryElement \<Rightarrow> 'm hypoElastic \<Rightarrow> numerics \<Rightarrow> 'g \<Rightarrow> SectionType \<Rightarrow> vec \<Rightarrow>
   'm GaussPt \<Rightarrow> error + 'm GaussPt" where
  "initializeGaussPt G M N par sec props gpt =
     (let dNdXi' = geo_dNdXi G par (xi gpt);
          J' = geo_Jacobian G par dNdXi';
          JInv' = mat_inverse N J';
          detJ' = mat_determinant N J';
          dNdX' = geo_dNdX G par dNdXi' JInv';
          B' = geo_B G par dNdX';
          geo = \<lparr>J = J', JInv = JInv', detJ = detJ', dNdXi = dNdXi', dNdX = dNdX', B = B',
                 intVol = 0\<rparr>
      in
        if sec = Solid then
          (case material gpt of
             None \<Rightarrow> Inl NullPointer
           | Some m \<Rightarrow>
               Inr (gpt\<lparr>
                 geometry := Some (geo\<lparr>intVol := weight gpt * detJ'\<rparr>),
                 material := Some (mat_setCharacteristicElementLength M m
                                     (std_cbrt N (8 * detJ')))\<rparr>))
        else if sec = PlaneStrain \<or> sec = PlaneStress then
          (case props of
             [] \<Rightarrow> Inl OutOfRange
           | thickness # _ \<Rightarrow>
               (case material gpt of
                  None \<Rightarrow> Inl NullPointer
                | Some m \<Rightarrow>
                    Inr (gpt\<lparr>
                      geometry := Some (geo\<lparr>intVol := weight gpt * detJ' * thickness\<rparr>),
                      material := Some (mat_setCharacteristicElementLength M m
                                          (std_sqrt N (4 * detJ')))\<rparr>)))
        else if sec = UniaxialStress then
          (case props of
             [] \<Rightarrow> Inl OutOfRange
           | crossSection # _ \<Rightarrow>
               (case material gpt of
                  None \<Rightarrow> Inl NullPointer
                | Some m \<Rightarrow>
                    Inr (gpt\<lparr>
                      geometry := Some (geo\<lparr>intVol := weight gpt * detJ' * crossSection\<rparr>),
                      material := Some (mat_setCharacteristicElementLength M m
                                          (2 * detJ'))\<rparr>)))
        else Inr (gpt\<lparr>geometry := Some geo\<rparr>))"

fun initializeLoop ::
  "'g geometryElement \<Rightarrow> 'm hypoElastic \<Rightarrow> numerics \<Rightarrow> 'g \<Rightarrow> SectionType \<Rightarrow> vec \<Rightarrow>
   'm GaussPt list \<Rightarrow> error + 'm GaussPt list" where
  "initializeLoop G M N par sec props [] = Inr []"
| "initializeLoop G M N par sec props (gpt # rest) =
     (case initializeGaussPt G M N par sec props gpt of
        Inl e \<Rightarrow> Inl e
      | Inr gpt' \<Rightarrow>
          (case initializeLoop G M N par sec props rest of
             Inl e \<Rightarrow> Inl e
           | Inr rest' \<Rightarrow> Inr (gpt' # rest')))"

definition initializeYourself ::
  "'g geometryElement \<Rightarrow> 'm hypoElastic \<Rightarrow> numerics \<Rightarrow> ('m, 'g) UelDisplacement \<Rightarrow> vec \<Rightarrow>
   error + ('m, 'g) UelDisplacement" where
  "initializeYourself G M N el coordinates =
     (let par = geo_initializeYourself G (parent el) coordinates in
      case initializeLoop G M N par (sectionType el) (elementProperties el) (gaussPts el) of
        Inl e \<Rightarrow> Inl e
      | Inr gps \<Rightarrow> Inr (el\<lparr>parent := par, gaussPts := gps\<rparr>))"

subsection \<open>The computation kernel\<close>

text \<open>
  What \<^verbatim>\<open>computeYourself\<close> reads and writes besides the Gauss points: the memory
  behind the stress and strain views, the caller's \<^verbatim>\<open>Ke\<close> and \<^verbatim>\<open>Pe\<close>, the in/out
  reference \<^verbatim>\<open>pNewDT\<close>, and the locals \<^verbatim>\<open>S\<close> and \<^verbatim>\<open>C\<close>. The two locals are declared
  before the loop without an initial value and live across its turns, so their
  contents on entry are part of the input.
\<close>

record kernel =
  mem :: memory
  Ke :: mat
  Pe :: vec
  pNewDT :: real
  S :: vec
  C :: mat

text \<open>
  The two ways out of \<^verbatim>\<open>computeYourself\<close>: the loop ends, or the \<^verbatim>\<open>return\<close> after the
  test \<^verbatim>\<open>pNewDT < 1.0\<close> is taken at the Gauss point of the given number. Both carry the
  Gauss points and the kernel state as the call leaves them.
\<close>

datatype 'm outcome =
    Completed "'m GaussPt list" kernel
  | CutBackRequested nat "'m GaussPt list" kernel

text \<open>
  A call of one of the three stress updates with \<^verbatim>\<open>gaussPt.stress.data()\<close>: the stress
  is updated in place, the material and \<^verbatim>\<open>pNewDT\<close> change, the tangent comes back.
\<close>

definition callMaterial ::
  "'m stressUpdate \<Rightarrow> vec \<Rightarrow> vec \<Rightarrow> real \<Rightarrow> 'm GaussPt \<Rightarrow> kernel \<Rightarrow>
   error + 'm GaussPt \<times> kernel \<times> mat" where
  "callMaterial f dE6 time dT gaussPt k =
     (case material gaussPt of
        None \<Rightarrow> Inl NullPointer
      | Some m \<Rightarrow>
          (case stress gaussPt of
             None \<Rightarrow> Inl NullPointer
           | Some ps \<Rightarrow>
               (case f m (read6 (mem k) ps) dE6 time dT (pNewDT k) of
                  (m', sig, C66, p) \<Rightarrow>
                    Inr (gaussPt\<lparr>material := Some m'\<rparr>,
                         k\<lparr>mem := write6 (mem k) ps sig, pNewDT := p\<rparr>,
                         C66))))"

text \<open>
  \<^verbatim>\<open>S = f( gaussPt.stress ); gaussPt.strain += dE6;\<close> of the 2D and 3D branches;
  \<open>addTo\<close> is the \<^verbatim>\<open>+=\<close> on a view.
\<close>

definition addTo :: "memory \<Rightarrow> ptr \<Rightarrow> vec \<Rightarrow> memory" where
  "addTo h p v = write6 h p (vec_add (read6 h p) v)"

definition takeStressAddStrain ::
  "(vec \<Rightarrow> vec) \<Rightarrow> vec \<Rightarrow> 'm GaussPt \<Rightarrow> kernel \<Rightarrow> error + kernel" where
  "takeStressAddStrain f dE6 gaussPt k =
     (case stress gaussPt of
        None \<Rightarrow> Inl NullPointer
      | Some ps \<Rightarrow>
          (case strain gaussPt of
             None \<Rightarrow> Inl NullPointer
           | Some pe \<Rightarrow>
               Inr (k\<lparr>S := f (read6 (mem k) ps), mem := addTo (mem k) pe dE6\<rparr>)))"

text \<open>The body of the loop up to the test of \<^verbatim>\<open>pNewDT\<close>.\<close>

definition materialUpdate ::
  "'m hypoElastic \<Rightarrow> numerics \<Rightarrow> nat \<Rightarrow> SectionType \<Rightarrow> vec \<Rightarrow> vec \<Rightarrow> real \<Rightarrow>
   Geometry \<Rightarrow> 'm GaussPt \<Rightarrow> kernel \<Rightarrow> error + 'm GaussPt \<times> kernel" where
  "materialUpdate M N nd sec dQ time dT geo gaussPt k =
     (let dE = mat_vec (B geo) dQ in
      if nd = 1 then
        (case callMaterial (computeUniaxialStress M) (dE @ [0, 0, 0, 0, 0]) time dT gaussPt k of
           Inl e \<Rightarrow> Inl e
         | Inr (gaussPt', k', C66) \<Rightarrow>
             Inr (gaussPt', k'\<lparr>C := [[getUniaxialStressTangent N C66]]\<rparr>))
      else if nd = 2 then
        (let dE6 = planeVoigtToVoigt N dE in
         case (if sec = PlaneStress then
                 (case callMaterial (computePlaneStress M) dE6 time dT gaussPt k of
                    Inl e \<Rightarrow> Inl e
                  | Inr (gaussPt', k', C66) \<Rightarrow>
                      Inr (gaussPt', k'\<lparr>C := getPlaneStressTangent N C66\<rparr>))
               else if sec = PlaneStrain then
                 (case callMaterial (computeStress M) dE6 time dT gaussPt k of
                    Inl e \<Rightarrow> Inl e
                  | Inr (gaussPt', k', C66) \<Rightarrow>
                      Inr (gaussPt', k'\<lparr>C := getPlaneStrainTangent N C66\<rparr>))
               else Inr (gaussPt, k)) of
           Inl e \<Rightarrow> Inl e
         | Inr (gaussPt', k') \<Rightarrow>
             (case takeStressAddStrain (voigtToPlaneVoigt N) dE6 gaussPt' k' of
                Inl e \<Rightarrow> Inl e
              | Inr k'' \<Rightarrow> Inr (gaussPt', k'')))
      else if nd = 3 then
        (case (if sec = Solid then
                 (case callMaterial (computeStress M) dE time dT gaussPt k of
                    Inl e \<Rightarrow> Inl e
                  | Inr (gaussPt', k', C66) \<Rightarrow> Inr (gaussPt', k'\<lparr>C := C66\<rparr>))
               else Inr (gaussPt, k)) of
           Inl e \<Rightarrow> Inl e
         | Inr (gaussPt', k') \<Rightarrow>
             (case takeStressAddStrain (\<lambda>v. v) dE gaussPt' k' of
                Inl e \<Rightarrow> Inl e
              | Inr k'' \<Rightarrow> Inr (gaussPt', k'')))
      else Inr (gaussPt, k))"

text \<open>
  \<^verbatim>\<open>Ke += B.transpose() * C * B * intVol; Pe -= B.transpose() * S * intVol;\<close>
\<close>

definition assemble :: "Geometry \<Rightarrow> kernel \<Rightarrow> kernel" where
  "assemble geo k =
     k\<lparr>Ke := mat_add (Ke k)
               (mat_scale (mat_mul (mat_mul (transpose (B geo)) (C k)) (B geo)) (intVol geo)),
       Pe := vec_sub (Pe k)
               (vec_scale (mat_vec (transpose (B geo)) (S k)) (intVol geo))\<rparr>"

text \<open>
  The loop over the Gauss points. \<open>passed\<close> are the Gauss points already behind the
  iterator, as the loop left them.
\<close>

fun gaussPtLoop ::
  "'m hypoElastic \<Rightarrow> numerics \<Rightarrow> nat \<Rightarrow> SectionType \<Rightarrow> vec \<Rightarrow> vec \<Rightarrow> real \<Rightarrow>
   'm GaussPt list \<Rightarrow> 'm GaussPt list \<Rightarrow> kernel \<Rightarrow> error + 'm outcome" where
  "gaussPtLoop M N nd sec dQ time dT passed [] k = Inr (Completed passed k)"
| "gaussPtLoop M N nd sec dQ time dT passed (gaussPt # rest) k =
     (case geometry gaussPt of
        None \<Rightarrow> Inl NullPointer
      | Some geo \<Rightarrow>
          (case materialUpdate M N nd sec dQ time dT geo gaussPt k of
             Inl e \<Rightarrow> Inl e
           | Inr (gaussPt', k') \<Rightarrow>
               if pNewDT k' < 1 then
                 Inr (CutBackRequested (length passed) (passed @ gaussPt' # rest) k')
               else
                 gaussPtLoop M N nd sec dQ time dT (passed @ [gaussPt']) rest (assemble geo k')))"

definition computeYourself ::
  "'m hypoElastic \<Rightarrow> numerics \<Rightarrow> ('m, 'g) UelDisplacement \<Rightarrow> vec \<Rightarrow> vec \<Rightarrow> vec \<Rightarrow> real \<Rightarrow>
   kernel \<Rightarrow> error + 'm outcome" where
  "computeYourself M N el QTotal dQ time dT k =
     gaussPtLoop M N (nDim el) (sectionType el) dQ time dT [] (gaussPts el) k"

text \<open>What a call of \<^verbatim>\<open>computeYourself\<close> leaves behind, and where it was cut back.\<close>

fun finalKernel :: "error + 'm outcome \<Rightarrow> kernel option" where
  "finalKernel (Inl e) = None"
| "finalKernel (Inr (Completed gps k)) = Some k"
| "finalKernel (Inr (CutBackRequested i gps k)) = Some k"

fun finalGaussPts :: "error + 'm outcome \<Rightarrow> 'm GaussPt list option" where
  "finalGaussPts (Inl e) = None"
| "finalGaussPts (Inr (Completed gps k)) = Some gps"
| "finalGaussPts (Inr (CutBackRequested i gps k)) = Some gps"

fun cutBackAt :: "error + 'm outcome \<Rightarrow> nat option" where
  "cutBackAt (Inr (CutBackRequested i gps k)) = Some i"
| "cutBackAt _ = None"

text \<open>
  The dispatch of the kernel as the interface describes it: which stress update is
  selected by dimension and section type, and the strain increment in 6-component
  form that it is called with.
\<close>

definition dispatched :: "'m hypoElastic \<Rightarrow> nat \<Rightarrow> SectionType \<Rightarrow> 'm stressUpdate option" where
  "dispatched M nd sec =
     (if nd = 1 then Some (computeUniaxialStress M)
      else if nd = 2 \<and> sec = PlaneStress then Some (computePlaneStress M)
      else if nd = 2 \<and> sec = PlaneStrain then Some (computeStress M)
      else if nd = 3 \<and> sec = Solid then Some (computeStress M)
      else None)"

definition expanded :: "numerics \<Rightarrow> nat \<Rightarrow> vec \<Rightarrow> vec" where
  "expanded N nd dE =
     (if nd = 1 then dE @ [0, 0, 0, 0, 0]
      else if nd = 2 then planeVoigtToVoigt N dE
      else dE)"

text \<open>
  What a stress update leaves behind a stress view and in \<^verbatim>\<open>pNewDT\<close> when it is called
  on memory \<open>h\<close> with the incoming fraction \<open>p\<close>, and what \<^verbatim>\<open>+=\<close> leaves behind a
  strain view.
\<close>

definition stressLeftBy ::
  "'m stressUpdate \<Rightarrow> 'm \<Rightarrow> memory \<Rightarrow> ptr \<Rightarrow> vec \<Rightarrow> vec \<Rightarrow> real \<Rightarrow> real \<Rightarrow> vec" where
  "stressLeftBy f m h ps dE6 time dT p =
     (case f m (read6 h ps) dE6 time dT p of (m', sig, C66, p') \<Rightarrow> read6 (write6 h ps sig) ps)"

definition fractionLeftBy ::
  "'m stressUpdate \<Rightarrow> 'm \<Rightarrow> memory \<Rightarrow> ptr \<Rightarrow> vec \<Rightarrow> vec \<Rightarrow> real \<Rightarrow> real \<Rightarrow> real" where
  "fractionLeftBy f m h ps dE6 time dT p =
     (case f m (read6 h ps) dE6 time dT p of (m', sig, C66, p') \<Rightarrow> p')"

definition incremented :: "memory \<Rightarrow> ptr \<Rightarrow> vec \<Rightarrow> vec" where
  "incremented h pe dE6 = read6 (addTo h pe dE6) pe"

text \<open>The six doubles behind a view after a call of \<^verbatim>\<open>computeYourself\<close>.\<close>

definition viewAfter :: "error + 'm outcome \<Rightarrow> ptr \<Rightarrow> vec option" where
  "viewAfter r p = map_option (\<lambda>k. read6 (mem k) p) (finalKernel r)"

subsection \<open>Initial conditions and loads\<close>

text \<open>
  The body of the loop of \<^verbatim>\<open>setInitialConditions\<close>. \<^verbatim>\<open>values\<close> and \<^verbatim>\<open>load\<close> are
  pointers to doubles that the element indexes: functions from the index.
  \<^verbatim>\<open>coordAtGauss\<close> has \<^verbatim>\<open>nDim\<close> components and the loop only runs for \<open>nDim > 1\<close>, so
  its component 1 exists.
\<close>

definition geostaticGaussPt ::
  "'g geometryElement \<Rightarrow> numerics \<Rightarrow> 'g \<Rightarrow> (nat \<Rightarrow> real) \<Rightarrow> 'm GaussPt \<Rightarrow> memory \<Rightarrow>
   error + memory" where
  "geostaticGaussPt G N par values gaussPt h =
     (case stress gaussPt of
        None \<Rightarrow> Inl NullPointer
      | Some ps \<Rightarrow>
          (let coordAtGauss = mat_vec (geo_NB G par (geo_N G par (xi gaussPt)))
                                (geo_coordinates G par);
               sigY1 = values 0;
               sigY2 = values 2;
               y1 = values 1;
               y2 = values 3;
               h1 = h(ps + 1 := linearInterpolation N (coordAtGauss ! 1) y1 y2 sigY1 sigY2);
               h2 = h1(ps := values 4 * h1 (ps + 1));
               h3 = h2(ps + 2 := values 5 * h2 (ps + 1))
           in Inr h3))"

fun geostaticLoop ::
  "'g geometryElement \<Rightarrow> numerics \<Rightarrow> 'g \<Rightarrow> (nat \<Rightarrow> real) \<Rightarrow> 'm GaussPt list \<Rightarrow> memory \<Rightarrow>
   error + memory" where
  "geostaticLoop G N par values [] h = Inr h"
| "geostaticLoop G N par values (gaussPt # rest) h =
     (case geostaticGaussPt G N par values gaussPt h of
        Inl e \<Rightarrow> Inl e
      | Inr h' \<Rightarrow> geostaticLoop G N par values rest h')"

definition setInitialConditions ::
  "'g geometryElement \<Rightarrow> numerics \<Rightarrow> ('m, 'g) UelDisplacement \<Rightarrow> StateTypes \<Rightarrow>
   (nat \<Rightarrow> real) \<Rightarrow> memory \<Rightarrow> error + memory" where
  "setInitialConditions G N el state values h =
     (case state of
        GeostaticStress \<Rightarrow>
          if nDim el > 1 then geostaticLoop G N (parent el) values (gaussPts el) h
          else Inr h
      | OtherState _ \<Rightarrow> Inr h)"

text \<open>
  \<^verbatim>\<open>computeDistributedLoad\<close> gives back the load vector behind \<^verbatim>\<open>P\<close> as the call
  leaves it, and the exception if one was thrown.
\<close>

definition computeDistributedLoad ::
  "'g geometryElement \<Rightarrow> ('m, 'g) UelDisplacement \<Rightarrow> DistributedLoadTypes \<Rightarrow> vec \<Rightarrow> mat \<Rightarrow>
   int \<Rightarrow> (nat \<Rightarrow> real) \<Rightarrow> vec \<Rightarrow> vec \<Rightarrow> real \<Rightarrow> error option \<times> vec" where
  "computeDistributedLoad G el loadType P K elementFace load QTotal time dT =
     (case loadType of
        Pressure \<Rightarrow>
          (let p = load 0;
               Pk = map (\<lambda>x. - p * x)
                      (computeNormalLoadVector G (parent el) elementFace (nDim el))
           in
             if nDim el = 2 then
               (case elementProperties el of
                  [] \<Rightarrow> (Some OutOfRange, P)
                | thickness # _ \<Rightarrow>
                    (None, assembleIntoParentVector G (parent el) elementFace (nDim el)
                             (vec_scale Pk thickness) P))
             else
               (None, assembleIntoParentVector G (parent el) elementFace (nDim el) Pk P))
      | OtherLoad _ \<Rightarrow> (Some (InvalidArgument ''Invalid Load Type specified''), P))"

subsection \<open>The buffer layout of the interface\<close>

text \<open>
  The persistent state buffer as the interface describes it: one block per Gauss point,
  each block the material's state variables, then 6 doubles of stress, then 6 doubles
  of strain, all blocks of the same size \<open>blk\<close>.
\<close>

definition stressSlot :: "ptr \<Rightarrow> int \<Rightarrow> nat \<Rightarrow> ptr" where
  "stressSlot buffer blk i = buffer + int i * blk + (blk - 12)"

definition strainSlot :: "ptr \<Rightarrow> int \<Rightarrow> nat \<Rightarrow> ptr" where
  "strainSlot buffer blk i = buffer + int i * blk + (blk - 6)"

text \<open>
  The views of a list of Gauss points, and whether no two of them share a cell. This is
  what the caller owes the element: \<^verbatim>\<open>assignStateVars\<close> lays the views out this way
  whenever every block has room for 12 doubles.
\<close>

definition views :: "'m GaussPt list \<Rightarrow> ptr list" where
  "views gps = concat (map (\<lambda>gp. [p. Some p \<leftarrow> [stress gp, strain gp]]) gps)"

fun apart :: "ptr list \<Rightarrow> bool" where
  "apart [] = True"
| "apart (p # ps) = ((\<forall>q \<in> set ps. p + 6 \<le> q \<or> q + 6 \<le> p) \<and> apart ps)"

subsection \<open>Examples\<close>

text \<open>
  A material with unit stiffness: the strain increment is added to the stress, the
  tangent is the identity, and the material asks for half the step when the first
  strain increment exceeds its strength.
\<close>

record exampleMaterial =
  strength :: real
  characteristicLength :: real

definition identity6 :: mat where
  "identity6 =
     [[1, 0, 0, 0, 0, 0], [0, 1, 0, 0, 0, 0], [0, 0, 1, 0, 0, 0],
      [0, 0, 0, 1, 0, 0], [0, 0, 0, 0, 1, 0], [0, 0, 0, 0, 0, 1]]"

definition unitStiffness :: "exampleMaterial stressUpdate" where
  "unitStiffness m sig dE6 time dT p =
     (m, vec_add sig dE6, identity6,
      (case dE6 of [] \<Rightarrow> p | e # _ \<Rightarrow> if strength m < e then 1 / 2 else p))"

definition exMaterial :: "exampleMaterial hypoElastic" where
  "exMaterial =
     \<lparr>bftMaterialFactory = (\<lambda>code props n label i.
          Some \<lparr>strength = 10, characteristicLength = 0\<rparr>),
      mat_getNumberOfRequiredStateVars = (\<lambda>m. 3),
      mat_assignStateVars = (\<lambda>m p n. m),
      mat_setCharacteristicElementLength = (\<lambda>m l. m\<lparr>characteristicLength := l\<rparr>),
      computeStress = unitStiffness,
      computePlaneStress = unitStiffness,
      computeUniaxialStress = unitStiffness,
      mat_nStateVars = (\<lambda>m. 3),
      mat_stateVars = (\<lambda>m. None),
      mat_getPermanentResultPointer = (\<lambda>m name len. Inl LookupFailure)\<rparr>"

definition pick3 :: "'a list \<Rightarrow> 'a list" where
  "pick3 v = [v ! 0, v ! 1, v ! 3]"

definition exNumerics :: numerics where
  "exNumerics =
     \<lparr>getUniaxialStressTangent = (\<lambda>C66. C66 ! 0 ! 0),
      getPlaneStressTangent = (\<lambda>C66. map pick3 (pick3 C66)),
      getPlaneStrainTangent = (\<lambda>C66. map pick3 (pick3 C66)),
      planeVoigtToVoigt = (\<lambda>v. [v ! 0, v ! 1, 0, v ! 2, 0, 0]),
      voigtToPlaneVoigt = pick3,
      linearInterpolation = (\<lambda>x x0 x1 y0 y1. y0 + (x - x0) * (y1 - y0) / (x1 - x0)),
      mat_inverse = (\<lambda>m. m),
      mat_determinant = (\<lambda>m. m ! 0 ! 0),
      std_cbrt = root 3,
      std_sqrt = sqrt\<rparr>"

text \<open>
  A geometry base that keeps the nodal coordinates and places every Gauss point at the
  node average \<open>(1/3, 1/3)\<close> of a triangle; its Jacobian is the unit matrix.
\<close>

definition exGeometry :: "vec geometryElement" where
  "exGeometry =
     \<lparr>geo_initializeYourself = (\<lambda>g coordinates. coordinates),
      geo_coordinates = (\<lambda>g. g),
      geo_N = (\<lambda>g xi. [1 / 3, 1 / 3, 1 / 3]),
      geo_NB = (\<lambda>g n. [[n ! 0, 0, n ! 1, 0, n ! 2, 0], [0, n ! 0, 0, n ! 1, 0, n ! 2]]),
      geo_dNdXi = (\<lambda>g xi. [[- 1, 1, 0], [- 1, 0, 1]]),
      geo_Jacobian = (\<lambda>g d. [[1, 0], [0, 1]]),
      geo_dNdX = (\<lambda>g d jinv. d),
      geo_B = (\<lambda>g d. [[- 1, 0, 1, 0, 0, 0], [0, - 1, 0, 0, 0, 1], [- 1, - 1, 0, 1, 1, 0]]),
      computeNormalLoadVector = (\<lambda>g face nd. [1, 1]),
      assembleIntoParentVector = (\<lambda>g face nd Pk fU. vec_add fU (Pk @ [0, 0, 0, 0]))\<rparr>"

text \<open>
  A plane-strain triangle with the nodes \<open>(0,0)\<close>, \<open>(1,0)\<close>, \<open>(0,1)\<close>, unit thickness
  and two Gauss points. The first material never asks for a smaller step, the second one
  does as soon as the strain grows. The views follow the layout of a buffer at
  address 0 with blocks of 12 doubles.
\<close>

definition triangleB :: mat where
  "triangleB = [[- 1, 0, 1, 0, 0, 0], [0, - 1, 0, 0, 0, 1], [- 1, - 1, 0, 1, 1, 0]]"

definition triangleGeometry :: Geometry where
  "triangleGeometry =
     \<lparr>J = [[1, 0], [0, 1]], JInv = [[1, 0], [0, 1]], detJ = 1,
      dNdXi = [[- 1, 1, 0], [- 1, 0, 1]], dNdX = [[- 1, 1, 0], [- 1, 0, 1]],
      B = triangleB, intVol = 1 / 4\<rparr>"

definition tough :: "exampleMaterial GaussPt" where
  "tough =
     \<lparr>xi = [1 / 3, 1 / 3], weight = 1 / 4,
      material = Some \<lparr>strength = 10, characteristicLength = 2\<rparr>,
      stress = Some 0, strain = Some 6, geometry = Some triangleGeometry\<rparr>"

definition brittle :: "exampleMaterial GaussPt" where
  "brittle =
     \<lparr>xi = [1 / 3, 1 / 3], weight = 1 / 4,
      material = Some \<lparr>strength = 0, characteristicLength = 2\<rparr>,
      stress = Some 12, strain = Some 18, geometry = Some triangleGeometry\<rparr>"

definition triangle :: "(exampleMaterial, vec) UelDisplacement" where
  "triangle =
     \<lparr>nDim = 2, nNodes = 3, parent = [0, 0, 1, 0, 0, 1], elementProperties = [1],
      elLabel = 1, sectionType = PlaneStrain, gaussPts = [tough, brittle]\<rparr>"

text \<open>
  The caller's state before the call on the triangle: memory, \<^verbatim>\<open>Ke\<close> and \<^verbatim>\<open>Pe\<close> are
  zero, \<^verbatim>\<open>pNewDT\<close> is 1.
\<close>

definition zeroMemory :: memory where
  "zeroMemory = (\<lambda>a. 0)"

definition zeros6 :: vec where
  "zeros6 = [0, 0, 0, 0, 0, 0]"

definition triangleKernel :: kernel where
  "triangleKernel =
     \<lparr>mem = zeroMemory, Ke = [zeros6, zeros6, zeros6, zeros6, zeros6, zeros6], Pe = zeros6,
      pNewDT = 1, S = [], C = []\<rparr>"

text \<open>
  A bar with two nodes at 0 and 1, unit cross section and one Gauss point, stretched
  by moving its second node.
\<close>

definition barPoint :: "exampleMaterial GaussPt" where
  "barPoint =
     \<lparr>xi = [0], weight = 2,
      material = Some \<lparr>strength = 10, characteristicLength = 1\<rparr>,
      stress = Some 0, strain = Some 6,
      geometry = Some \<lparr>J = [[1 / 2]], JInv = [[2]], detJ = 1 / 2, dNdXi = [[- 1 / 2, 1 / 2]],
                        dNdX = [[- 1, 1]], B = [[- 1, 1]], intVol = 1\<rparr>\<rparr>"

definition bar :: "(exampleMaterial, vec) UelDisplacement" where
  "bar =
     \<lparr>nDim = 1, nNodes = 2, parent = [0, 1], elementProperties = [1],
      elLabel = 2, sectionType = UniaxialStress, gaussPts = [barPoint]\<rparr>"

text \<open>The caller's state before the call on the bar; \<open>S0\<close> is what the local \<^verbatim>\<open>S\<close> holds.\<close>

definition barKernel :: "vec \<Rightarrow> kernel" where
  "barKernel S0 =
     \<lparr>mem = zeroMemory, Ke = [[0, 0], [0, 0]], Pe = [0, 0], pNewDT = 1, S = S0, C = []\<rparr>"

text \<open>
  A geostatic payload: \<open>-10\<close> at elevation 0, \<open>-4\<close> at elevation 1, ratios one half and
  one quarter.
\<close>

definition geostaticValues :: "nat \<Rightarrow> real" where
  "geostaticValues i = [- 10, 0, - 4, 1, 1 / 2, 1 / 4, 0] ! min i 6"

text \<open>The displacement increment that moves the second node of the triangle by 1 in x.\<close>

definition stretch :: vec where
  "stretch = [0, 0, 1, 0, 0, 0]"

text \<open>
  The same caller's state with a stress of 3 and a strain of 2 already stored in the
  first components of the first Gauss point's views.
\<close>

definition loadedMemory :: memory where
  "loadedMemory = (\<lambda>a. if a = 0 then 3 else if a = 6 then 2 else 0)"

definition loadedKernel :: kernel where
  "loadedKernel = triangleKernel\<lparr>mem := loadedMemory\<rparr>"

section \<open>Properties\<close>

subsection \<open>Integer conversions and the buffer layout\<close>

lemma to_int_to_size_t: "int_range x \<Longrightarrow> to_int (to_size_t x) = x"
proof -
  assume r: "int_range x"
  have "(x mod 2 ^ 64 + 2 ^ 31) mod (2 ^ 32 :: int) = (x + 2 ^ 31) mod 2 ^ 32"
  proof -
    have "(2::int) ^ 32 dvd 2 ^ 64" by (simp add: le_imp_power_dvd)
    then have "x mod 2 ^ 64 mod (2 ^ 32 :: int) = x mod 2 ^ 32" by (rule mod_mod_cancel)
    then show ?thesis by (metis mod_add_left_eq)
  qed
  moreover have "(x + 2 ^ 31) mod (2 ^ 32 :: int) = x + 2 ^ 31"
    using r by (simp add: int_range_def)
  ultimately show ?thesis by (simp add: to_int_def to_size_t_def)
qed

lemma to_size_t_mult: "to_size_t (to_size_t a * b) = to_size_t (a * b)"
  by (simp add: to_size_t_def mod_mult_left_eq)

lemma div_bounds:
  assumes "0 \<le> n" "0 < g"
  shows "0 \<le> n div int g" and "n div int g \<le> n" and "int g * (n div int g) \<le> n"
proof -
  show "0 \<le> n div int g" using assms by (simp add: pos_imp_zdiv_nonneg_iff)
  show "n div int g \<le> n" using zdiv_mono2 [of n 1 "int g"] assms by simp
  have "int g * (n div int g) + n mod int g = n" by simp
  moreover have "0 \<le> n mod int g" using assms by simp
  ultimately show "int g * (n div int g) \<le> n" by linarith
qed

lemma nStateVarsMaterial_div:
  assumes "0 \<le> n" "n < 2 ^ 31" "0 < g"
  shows "nStateVarsMaterial n g = n div int g - 12"
proof -
  have a: "to_size_t n = n" using assms by (simp add: to_size_t_def)
  have "int_range (n div int g - 12)"
    using div_bounds(1,2) [OF assms(1,3)] assms(2) by (simp add: int_range_def)
  then show ?thesis by (simp add: nStateVarsMaterial_def a nRequiredStateVars_def to_int_to_size_t)
qed

lemma blockOffset_mult:
  assumes "0 \<le> q" "int i * q < 2 ^ 64" "q < 2 ^ 64"
  shows "blockOffset (q - 12) i = int i * q"
  using assms by (simp add: blockOffset_def nRequiredStateVars_def to_size_t_def)

lemma assignLoop_layout:
  assumes "\<forall>gp \<in> set gps. material gp \<noteq> None"
  shows "\<exists>gps'. assignLoop M p nm i gps = Inr gps' \<and> length gps' = length gps \<and>
           (\<forall>j < length gps. \<exists>m. material (gps ! j) = Some m \<and>
              gps' ! j = (gps ! j)\<lparr>
                material := Some (mat_assignStateVars M m (p + blockOffset nm (i + j)) nm),
                stress := Some (p + nm + blockOffset nm (i + j)),
                strain := Some (p + nm + blockOffset nm (i + j) + 6)\<rparr>)"
  using assms
proof (induction gps arbitrary: i)
  case Nil
  then show ?case by simp
next
  case (Cons gp gps)
  from Cons.prems obtain m where m: "material gp = Some m" by auto
  from Cons.prems have "\<forall>gp \<in> set gps. material gp \<noteq> None" by simp
  from Cons.IH [OF this, of "Suc i"] obtain rest' where
    r: "assignLoop M p nm (Suc i) gps = Inr rest'" "length rest' = length gps"
    and l: "\<forall>j < length gps. \<exists>m. material (gps ! j) = Some m \<and>
              rest' ! j = (gps ! j)\<lparr>
                material := Some (mat_assignStateVars M m (p + blockOffset nm (Suc i + j)) nm),
                stress := Some (p + nm + blockOffset nm (Suc i + j)),
                strain := Some (p + nm + blockOffset nm (Suc i + j) + 6)\<rparr>"
    by blast
  let ?gp' = "gp\<lparr>material := Some (mat_assignStateVars M m (p + blockOffset nm i) nm),
                 stress := Some (p + nm + blockOffset nm i),
                 strain := Some (p + nm + blockOffset nm i + 6)\<rparr>"
  have e: "assignLoop M p nm i (gp # gps) = Inr (?gp' # rest')"
    by (simp add: assignGaussPt_def m r)
  have "\<exists>m. material ((gp # gps) ! j) = Some m \<and>
              (?gp' # rest') ! j = ((gp # gps) ! j)\<lparr>
                material := Some (mat_assignStateVars M m (p + blockOffset nm (i + j)) nm),
                stress := Some (p + nm + blockOffset nm (i + j)),
                strain := Some (p + nm + blockOffset nm (i + j) + 6)\<rparr>"
    if "j < length (gp # gps)" for j
  proof (cases j)
    case 0
    then show ?thesis by (simp add: m)
  next
    case (Suc j')
    with that have "j' < length gps" by simp
    with l Suc show ?thesis by simp
  qed
  with e r show ?case by simp
qed

lemma assignStateVars_layout:
  assumes ne: "gaussPts el \<noteq> []"
      and mats: "\<forall>gp \<in> set (gaussPts el). material gp \<noteq> None"
      and n: "0 \<le> nStateVars" "nStateVars < 2 ^ 31"
  shows "\<exists>el'. assignStateVars M el stateVars nStateVars = Inr el' \<and>
           length (gaussPts el') = length (gaussPts el) \<and>
           (\<forall>i < length (gaussPts el). \<exists>m. material (gaussPts el ! i) = Some m \<and>
              gaussPts el' ! i = (gaussPts el ! i)\<lparr>
                material := Some (mat_assignStateVars M m
                  (stateVars + int i * (nStateVars div int (length (gaussPts el))))
                  (nStateVars div int (length (gaussPts el)) - 12)),
                stress := Some (stressSlot stateVars (nStateVars div int (length (gaussPts el))) i),
                strain := Some (strainSlot stateVars (nStateVars div int (length (gaussPts el))) i)\<rparr>)"
proof -
  let ?g = "length (gaussPts el)"
  let ?q = "nStateVars div int ?g"
  have g: "0 < ?g" using ne by simp
  have nm: "nStateVarsMaterial nStateVars ?g = ?q - 12"
    by (rule nStateVarsMaterial_div [OF n g])
  have q: "0 \<le> ?q" "?q \<le> nStateVars" "int ?g * ?q \<le> nStateVars"
    by (rule div_bounds [OF n(1) g])+
  have off: "blockOffset (?q - 12) i = int i * ?q" if "i < ?g" for i
  proof (rule blockOffset_mult)
    show "0 \<le> ?q" by (rule q)
    have "int i * ?q \<le> int ?g * ?q" using that q(1) by (simp add: mult_right_mono)
    with q(3) n(2) show "int i * ?q < 2 ^ 64" by simp
    from q(2) n(2) show "?q < 2 ^ 64" by simp
  qed
  from assignLoop_layout [OF mats, of M stateVars "?q - 12" 0] obtain gps' where
    r: "assignLoop M stateVars (?q - 12) 0 (gaussPts el) = Inr gps'" "length gps' = ?g"
    and l: "\<forall>j < ?g. \<exists>m. material (gaussPts el ! j) = Some m \<and>
              gps' ! j = (gaussPts el ! j)\<lparr>
                material := Some (mat_assignStateVars M m (stateVars + blockOffset (?q - 12) (0 + j)) (?q - 12)),
                stress := Some (stateVars + (?q - 12) + blockOffset (?q - 12) (0 + j)),
                strain := Some (stateVars + (?q - 12) + blockOffset (?q - 12) (0 + j) + 6)\<rparr>"
    by blast
  have "assignStateVars M el stateVars nStateVars = Inr (el\<lparr>gaussPts := gps'\<rparr>)"
    using ne by (simp add: assignStateVars_def nm r)
  moreover have "\<exists>m. material (gaussPts el ! i) = Some m \<and>
              gps' ! i = (gaussPts el ! i)\<lparr>
                material := Some (mat_assignStateVars M m (stateVars + int i * ?q) (?q - 12)),
                stress := Some (stressSlot stateVars ?q i),
                strain := Some (strainSlot stateVars ?q i)\<rparr>" if "i < ?g" for i
  proof -
    from l that obtain m where "material (gaussPts el ! i) = Some m"
      and "gps' ! i = (gaussPts el ! i)\<lparr>
                material := Some (mat_assignStateVars M m (stateVars + blockOffset (?q - 12) (0 + i)) (?q - 12)),
                stress := Some (stateVars + (?q - 12) + blockOffset (?q - 12) (0 + i)),
                strain := Some (stateVars + (?q - 12) + blockOffset (?q - 12) (0 + i) + 6)\<rparr>"
      by blast
    then show ?thesis
      by (simp add: off [OF that] stressSlot_def strainSlot_def algebra_simps)
  qed
  ultimately show ?thesis using r(2) by simp
qed

subsection \<open>Reading and writing views\<close>

lemma length_read6: "length (read6 h p) = 6"
  by (simp add: read6_def)

lemma nth_read6: "i < 6 \<Longrightarrow> read6 h p ! i = h (p + int i)"
  by (simp add: read6_def)

lemma read6_write6_same: "length v = 6 \<Longrightarrow> read6 (write6 h p v) p = v"
  by (rule nth_equalityI) (simp_all add: length_read6 nth_read6 write6_def)

lemma write6_outside: "a < p \<or> p + 6 \<le> a \<Longrightarrow> write6 h p v a = h a"
  by (auto simp: write6_def)

lemma read6_cong: "(\<And>a. q \<le> a \<Longrightarrow> a < q + 6 \<Longrightarrow> h' a = h a) \<Longrightarrow> read6 h' q = read6 h q"
  by (simp add: read6_def)

lemma read6_write6_other:
  "p + 6 \<le> q \<or> q + 6 \<le> p \<Longrightarrow> read6 (write6 h p v) q = read6 h q"
  by (rule read6_cong) (auto simp: write6_def)

subsection \<open>State binding\<close>

text \<open>
  C4. For an element with at least one Gauss point whose first Gauss point has its
  material assigned, \<^verbatim>\<open>getNumberOfRequiredStateVars()\<close> returns
  \<open>(materialStateVars + 12) \<times> gaussPointCount\<close>, where \<open>materialStateVars\<close> is what
  that material reports. The product is the value of a C++ \<^verbatim>\<open>int\<close>, so it lies in the
  range of one.
\<close>

theorem getNumberOfRequiredStateVars_exact:
  assumes "gaussPts el = gp # rest" and "material gp = Some m"
      and "int_range ((mat_getNumberOfRequiredStateVars M m + 12) * int (length (gaussPts el)))"
  shows "getNumberOfRequiredStateVars M el =
           Inr ((mat_getNumberOfRequiredStateVars M m + 12) * int (length (gaussPts el)))"
  using assms(3) unfolding getNumberOfRequiredStateVars_def
  by (simp add: assms(1,2) nRequiredStateVars_def to_size_t_mult to_int_to_size_t del: of_nat_Suc)

theorem getNumberOfRequiredStateVars_exact_witness:
  "getNumberOfRequiredStateVars exMaterial triangle = Inr 30"
  using getNumberOfRequiredStateVars_exact
          [of triangle tough "[brittle]" "\<lparr>strength = 10, characteristicLength = 2\<rparr>" exMaterial]
  by (simp add: triangle_def tough_def exMaterial_def int_range_def)

text \<open>
  C3, as stated, fails. The example material asks for 3 state variables, so the triangle
  with its two Gauss points needs a multiple of 30. \<^verbatim>\<open>assignStateVars\<close> with a length
  of 25 does not fail: it binds the stress views at offsets 0 and 12 of the buffer.
\<close>

theorem assignStateVars_no_fail_fast:
  "\<not> (mat_getNumberOfRequiredStateVars exMaterial \<lparr>strength = 10, characteristicLength = 2\<rparr> + 12)
        * 2 dvd (25 :: int) \<and>
   \<not> isl (assignStateVars exMaterial triangle 100 25) \<and>
   map stress (gaussPts (projr (assignStateVars exMaterial triangle 100 25)))
     = [Some 100, Some 112]"
  by (simp add: assignStateVars_def triangle_def tough_def brittle_def exMaterial_def
        nStateVarsMaterial_def to_int_def to_size_t_def nRequiredStateVars_def assignGaussPt_def
        blockOffset_def)

text \<open>
  C3, amended. \<^verbatim>\<open>assignStateVars(buffer, totalLength)\<close> checks nothing. For an element
  with at least one Gauss point, all materials assigned, and any \<open>totalLength\<close> from 0
  up to the largest \<^verbatim>\<open>int\<close>, it succeeds: with \<open>blk\<close> the truncated quotient of
  \<open>totalLength\<close> by the number of Gauss points, Gauss point \<open>i\<close> gets its stress view
  at \<open>buffer + i * blk + blk - 12\<close>, its strain view 6 doubles later, and its material
  is handed \<open>buffer + i * blk\<close> with \<open>blk - 12\<close> state variables, whatever the
  material asks for.
\<close>

theorem assignStateVars_truncating_partition:
  assumes "gaussPts el \<noteq> []"
      and "\<forall>gp \<in> set (gaussPts el). material gp \<noteq> None"
      and "0 \<le> totalLength" and "totalLength < 2 ^ 31"
  shows "\<exists>el'. assignStateVars M el buffer totalLength = Inr el' \<and>
           length (gaussPts el') = length (gaussPts el) \<and>
           (\<forall>i < length (gaussPts el).
              stress (gaussPts el' ! i)
                = Some (stressSlot buffer (totalLength div int (length (gaussPts el))) i) \<and>
              strain (gaussPts el' ! i)
                = Some (strainSlot buffer (totalLength div int (length (gaussPts el))) i) \<and>
              (\<exists>m. material (gaussPts el ! i) = Some m \<and>
                 material (gaussPts el' ! i)
                   = Some (mat_assignStateVars M m
                       (buffer + int i * (totalLength div int (length (gaussPts el))))
                       (totalLength div int (length (gaussPts el)) - 12))))"
proof -
  from assignStateVars_layout [OF assms, of M buffer] obtain el' where
    r: "assignStateVars M el buffer totalLength = Inr el'"
       "length (gaussPts el') = length (gaussPts el)"
    and l: "\<forall>i < length (gaussPts el). \<exists>m. material (gaussPts el ! i) = Some m \<and>
              gaussPts el' ! i = (gaussPts el ! i)\<lparr>
                material := Some (mat_assignStateVars M m
                  (buffer + int i * (totalLength div int (length (gaussPts el))))
                  (totalLength div int (length (gaussPts el)) - 12)),
                stress := Some (stressSlot buffer (totalLength div int (length (gaussPts el))) i),
                strain := Some (strainSlot buffer (totalLength div int (length (gaussPts el))) i)\<rparr>"
    by blast
  from l have "\<forall>i < length (gaussPts el).
              stress (gaussPts el' ! i)
                = Some (stressSlot buffer (totalLength div int (length (gaussPts el))) i) \<and>
              strain (gaussPts el' ! i)
                = Some (strainSlot buffer (totalLength div int (length (gaussPts el))) i) \<and>
              (\<exists>m. material (gaussPts el ! i) = Some m \<and>
                 material (gaussPts el' ! i)
                   = Some (mat_assignStateVars M m
                       (buffer + int i * (totalLength div int (length (gaussPts el))))
                       (totalLength div int (length (gaussPts el)) - 12)))"
    by fastforce
  with r show ?thesis by blast
qed

theorem assignStateVars_truncating_partition_witness:
  "\<exists>el'. assignStateVars exMaterial triangle 100 25 = Inr el' \<and>
         stress (gaussPts el' ! 1) = Some 112 \<and> strain (gaussPts el' ! 1) = Some 118"
proof -
  have "gaussPts triangle \<noteq> []" "\<forall>gp \<in> set (gaussPts triangle). material gp \<noteq> None"
    by (simp_all add: triangle_def tough_def brittle_def)
  from assignStateVars_truncating_partition [OF this, of 25 exMaterial 100] obtain el' where
    "assignStateVars exMaterial triangle 100 25 = Inr el'"
    "\<forall>i < length (gaussPts triangle).
              stress (gaussPts el' ! i)
                = Some (stressSlot 100 (25 div int (length (gaussPts triangle))) i) \<and>
              strain (gaussPts el' ! i)
                = Some (strainSlot 100 (25 div int (length (gaussPts triangle))) i)"
    by auto
  then show ?thesis
    by (auto simp: triangle_def stressSlot_def strainSlot_def)
qed

text \<open>
  C6. Take a buffer of \<open>totalLength\<close> doubles for an element whose materials are
  assigned, and a Gauss point \<open>i\<close>. Write six stress values and six strain values into
  the slots of that Gauss point, rebind the views with \<^verbatim>\<open>assignStateVars\<close>, and ask
  \<^verbatim>\<open>getPermanentResultPointer\<close> for \<^verbatim>\<open>"stress"\<close> and \<^verbatim>\<open>"strain"\<close>: both report length 6,
  and the pointers read back the values written.
\<close>

theorem state_buffer_roundtrip:
  assumes i: "i < length (gaussPts el)"
      and mats: "\<forall>gp \<in> set (gaussPts el). material gp \<noteq> None"
      and n: "0 \<le> totalLength" "totalLength < 2 ^ 31"
      and len: "length sig = 6" "length eps = 6"
      and blk: "blk = totalLength div int (length (gaussPts el))"
      and h': "h' = write6 (write6 h (stressSlot buffer blk i) sig) (strainSlot buffer blk i) eps"
  shows "\<exists>el' ps pe.
           assignStateVars M el buffer totalLength = Inr el' \<and>
           getPermanentResultPointer M el' ''stress'' (int i) len0 = Inr (Some ps, 6) \<and>
           getPermanentResultPointer M el' ''strain'' (int i) len0 = Inr (Some pe, 6) \<and>
           read6 h' ps = sig \<and> read6 h' pe = eps"
proof -
  from i have ne: "gaussPts el \<noteq> []" by auto
  from assignStateVars_layout [OF ne mats n, of M buffer] i obtain el' m where
    r: "assignStateVars M el buffer totalLength = Inr el'"
       "length (gaussPts el') = length (gaussPts el)"
    and l: "gaussPts el' ! i = (gaussPts el ! i)\<lparr>
                material := Some (mat_assignStateVars M m (buffer + int i * blk) (blk - 12)),
                stress := Some (stressSlot buffer blk i),
                strain := Some (strainSlot buffer blk i)\<rparr>"
    unfolding blk by blast
  have s: "getPermanentResultPointer M el' ''stress'' (int i) len0
             = Inr (Some (stressSlot buffer blk i), 6)"
    using i r(2) by (simp add: getPermanentResultPointer_def l Vgt_VoigtSize_def)
  have e: "getPermanentResultPointer M el' ''strain'' (int i) len0
             = Inr (Some (strainSlot buffer blk i), 6)"
    using i r(2) by (simp add: getPermanentResultPointer_def l Vgt_VoigtSize_def)
  have d: "strainSlot buffer blk i = stressSlot buffer blk i + 6"
    by (simp add: stressSlot_def strainSlot_def)
  have "read6 h' (stressSlot buffer blk i) = sig"
    unfolding h' d by (simp add: read6_write6_other read6_write6_same len)
  moreover have "read6 h' (strainSlot buffer blk i) = eps"
    unfolding h' by (simp add: read6_write6_same len)
  ultimately show ?thesis using r(1) s e by blast
qed

theorem state_buffer_roundtrip_witness:
  "\<exists>el' ps pe.
     assignStateVars exMaterial triangle 100 30 = Inr el' \<and>
     getPermanentResultPointer exMaterial el' ''stress'' 1 0 = Inr (Some ps, 6) \<and>
     getPermanentResultPointer exMaterial el' ''strain'' 1 0 = Inr (Some pe, 6) \<and>
     read6 (write6 (write6 zeroMemory 118 [1, 2, 3, 4, 5, 6]) 124 [7, 8, 9, 10, 11, 12]) ps
       = [1, 2, 3, 4, 5, 6] \<and>
     read6 (write6 (write6 zeroMemory 118 [1, 2, 3, 4, 5, 6]) 124 [7, 8, 9, 10, 11, 12]) pe
       = [7, 8, 9, 10, 11, 12]"
  using state_buffer_roundtrip
          [of 1 triangle 30 "[1, 2, 3, 4, 5, 6]" "[7, 8, 9, 10, 11, 12]" 15
              "write6 (write6 zeroMemory 118 [1, 2, 3, 4, 5, 6]) 124 [7, 8, 9, 10, 11, 12]"
              zeroMemory 100 exMaterial 0]
  by (simp add: triangle_def tough_def brittle_def stressSlot_def strainSlot_def)

subsection \<open>Initialization\<close>

lemma initializeLoop_nth:
  assumes "\<forall>gp \<in> set gps. material gp \<noteq> None" and "sec \<noteq> Solid \<longrightarrow> props \<noteq> []"
  shows "\<exists>gps'. initializeLoop G M N par sec props gps = Inr gps' \<and> length gps' = length gps \<and>
           (\<forall>i < length gps. initializeGaussPt G M N par sec props (gps ! i) = Inr (gps' ! i))"
  using assms(1)
proof (induction gps)
  case Nil
  then show ?case by simp
next
  case (Cons gp gps)
  then obtain rest' where
    r: "initializeLoop G M N par sec props gps = Inr rest'" "length rest' = length gps"
       "\<forall>i < length gps. initializeGaussPt G M N par sec props (gps ! i) = Inr (rest' ! i)"
    by auto
  from Cons.prems obtain m where m: "material gp = Some m" by auto
  obtain gp' where g: "initializeGaussPt G M N par sec props gp = Inr gp'"
    using assms(2) m
    by (cases sec; cases props) (simp_all add: initializeGaussPt_def Let_def)
  have "initializeGaussPt G M N par sec props ((gp # gps) ! i) = Inr ((gp' # rest') ! i)"
    if "i < length (gp # gps)" for i
    using that g r(3) by (cases i) simp_all
  then show ?case using g r by simp
qed

text \<open>
  C5. \<^verbatim>\<open>initializeYourself\<close> gives every Gauss point, with \<open>d\<close> the determinant of its
  Jacobian: for a Solid section the integrated volume \<open>weight * d\<close> and the
  characteristic length \<open>cbrt (8 * d)\<close>; for PlaneStress and PlaneStrain
  \<open>weight * d * elementProperties[0]\<close> and \<open>sqrt (4 * d)\<close>; for UniaxialStress
  \<open>weight * d * elementProperties[0]\<close> and \<open>2 * d\<close>. The characteristic length is
  what the material's \<^verbatim>\<open>setCharacteristicElementLength\<close> is called with.
\<close>

theorem initializeYourself_volume_and_length:
  fixes G :: "'g geometryElement" and M :: "'m hypoElastic" and el :: "('m, 'g) UelDisplacement"
    and coordinates :: vec and N :: numerics
  assumes i: "i < length (gaussPts el)"
      and mats: "\<forall>gp \<in> set (gaussPts el). material gp \<noteq> None"
      and props: "sectionType el \<noteq> Solid \<longrightarrow> elementProperties el \<noteq> []"
  defines "par \<equiv> geo_initializeYourself G (parent el) coordinates"
      and "gp \<equiv> gaussPts el ! i"
  defines "d \<equiv> mat_determinant N (geo_Jacobian G par (geo_dNdXi G par (xi gp)))"
  shows "\<exists>el' geo m m'.
           initializeYourself G M N el coordinates = Inr el' \<and>
           material gp = Some m \<and>
           geometry (gaussPts el' ! i) = Some geo \<and>
           material (gaussPts el' ! i) = Some m' \<and>
           detJ geo = d \<and>
           (sectionType el = Solid \<longrightarrow>
              intVol geo = weight gp * d \<and>
              m' = mat_setCharacteristicElementLength M m (std_cbrt N (8 * d))) \<and>
           (sectionType el = PlaneStress \<or> sectionType el = PlaneStrain \<longrightarrow>
              intVol geo = weight gp * d * elementProperties el ! 0 \<and>
              m' = mat_setCharacteristicElementLength M m (std_sqrt N (4 * d))) \<and>
           (sectionType el = UniaxialStress \<longrightarrow>
              intVol geo = weight gp * d * elementProperties el ! 0 \<and>
              m' = mat_setCharacteristicElementLength M m (2 * d))"
proof -
  from initializeLoop_nth [OF mats props, of G M N par] i obtain gps' where
    r: "initializeLoop G M N par (sectionType el) (elementProperties el) (gaussPts el) = Inr gps'"
    and g: "initializeGaussPt G M N par (sectionType el) (elementProperties el) gp = Inr (gps' ! i)"
    unfolding gp_def by blast
  have e: "initializeYourself G M N el coordinates = Inr (el\<lparr>parent := par, gaussPts := gps'\<rparr>)"
    using r by (simp add: initializeYourself_def par_def [symmetric])
  from mats i obtain m where m: "material gp = Some m"
    unfolding gp_def by (metis nth_mem option.exhaust)
  show ?thesis
  proof (cases "sectionType el")
    case Solid
    with g [symmetric] m show ?thesis
      unfolding e by (auto simp: initializeGaussPt_def Let_def d_def)
  next
    case PlaneStress
    with props obtain t ts where "elementProperties el = t # ts" by (cases "elementProperties el") auto
    with g [symmetric] m PlaneStress show ?thesis
      unfolding e by (auto simp: initializeGaussPt_def Let_def d_def)
  next
    case PlaneStrain
    with props obtain t ts where "elementProperties el = t # ts" by (cases "elementProperties el") auto
    with g [symmetric] m PlaneStrain show ?thesis
      unfolding e by (auto simp: initializeGaussPt_def Let_def d_def)
  next
    case UniaxialStress
    with props obtain t ts where "elementProperties el = t # ts" by (cases "elementProperties el") auto
    with g [symmetric] m UniaxialStress show ?thesis
      unfolding e by (auto simp: initializeGaussPt_def Let_def d_def)
  qed
qed

theorem initializeYourself_volume_and_length_witness:
  "\<exists>el' geo m'.
     initializeYourself exGeometry exMaterial exNumerics triangle [0, 0, 1, 0, 0, 1] = Inr el' \<and>
     geometry (gaussPts el' ! 1) = Some geo \<and> material (gaussPts el' ! 1) = Some m' \<and>
     detJ geo = 1 \<and> intVol geo = 1 / 4 \<and> m' = \<lparr>strength = 0, characteristicLength = 2\<rparr>"
proof -
  have "1 < length (gaussPts triangle)" "\<forall>gp \<in> set (gaussPts triangle). material gp \<noteq> None"
    "sectionType triangle \<noteq> Solid \<longrightarrow> elementProperties triangle \<noteq> []"
    by (simp_all add: triangle_def tough_def brittle_def)
  from initializeYourself_volume_and_length [OF this, where G = exGeometry and coordinates = "[0, 0, 1, 0, 0, 1]"
        and M = exMaterial and N = exNumerics]
  show ?thesis
    by (simp add: triangle_def tough_def brittle_def exGeometry_def exNumerics_def exMaterial_def)
qed

subsection \<open>Loads and initial conditions\<close>

text \<open>
  C7. \<^verbatim>\<open>computeDistributedLoad\<close> with a load type other than \<^verbatim>\<open>Pressure\<close> throws
  \<^verbatim>\<open>std::invalid_argument\<close>, and the load vector \<^verbatim>\<open>P\<close> is as it was.
\<close>

theorem computeDistributedLoad_unsupported:
  "loadType \<noteq> Pressure \<Longrightarrow>
   computeDistributedLoad G el loadType P K elementFace load QTotal time dT
     = (Some (InvalidArgument ''Invalid Load Type specified''), P)"
  by (cases loadType) (simp_all add: computeDistributedLoad_def)

theorem computeDistributedLoad_unsupported_witness:
  "computeDistributedLoad exGeometry triangle (OtherLoad 1) zeros6 [] 0 (\<lambda>i. 5) [] [] 1
     = (Some (InvalidArgument ''Invalid Load Type specified''), zeros6)"
  using computeDistributedLoad_unsupported [of "OtherLoad 1" exGeometry triangle zeros6 "[]" 0 "\<lambda>i. 5" "[]" "[]" 1]
  by simp

text \<open>
  C10. \<^verbatim>\<open>setInitialConditions\<close> with a state type other than \<^verbatim>\<open>GeostaticStress\<close>, or
  with \<^verbatim>\<open>GeostaticStress\<close> on a one-dimensional element, raises nothing and leaves
  the memory behind every stress and strain view as it was.
\<close>

theorem setInitialConditions_noop:
  "state \<noteq> GeostaticStress \<or> nDim el = 1 \<Longrightarrow>
   setInitialConditions G N el state values h = Inr h"
  by (cases state) (auto simp: setInitialConditions_def)

theorem setInitialConditions_noop_witness:
  "setInitialConditions exGeometry exNumerics bar GeostaticStress (\<lambda>i. 1) zeroMemory
     = Inr zeroMemory \<and>
   setInitialConditions exGeometry exNumerics triangle (OtherState 0) (\<lambda>i. 1) zeroMemory
     = Inr zeroMemory"
  using setInitialConditions_noop [of GeostaticStress bar exGeometry exNumerics "\<lambda>i. 1" zeroMemory]
        setInitialConditions_noop [of "OtherState 0" triangle exGeometry exNumerics "\<lambda>i. 1" zeroMemory]
  by (simp add: bar_def)

lemma views_Cons:
  "views (g # gs) =
     (case stress g of None \<Rightarrow> [] | Some p \<Rightarrow> [p]) @
     (case strain g of None \<Rightarrow> [] | Some p \<Rightarrow> [p]) @ views gs"
  by (cases "stress g"; cases "strain g") (simp_all add: views_def)

lemma views_Nil: "views [] = []"
  by (simp add: views_def)

lemma stress_in_views: "g \<in> set gs \<Longrightarrow> stress g = Some p \<Longrightarrow> p \<in> set (views gs)"
  by (induction gs) (auto simp: views_Cons views_Nil split: option.splits)

lemma strain_in_views: "g \<in> set gs \<Longrightarrow> strain g = Some p \<Longrightarrow> p \<in> set (views gs)"
  by (induction gs) (auto simp: views_Cons views_Nil split: option.splits)

lemma apart_append:
  "apart (xs @ ys) \<longleftrightarrow>
     apart xs \<and> apart ys \<and> (\<forall>p \<in> set xs. \<forall>q \<in> set ys. p + 6 \<le> q \<or> q + 6 \<le> p)"
  by (induction xs) auto

lemma apart_views_Cons:
  assumes "apart (views (g # gs))"
  shows "apart (views gs)"
    and "stress g = Some p \<Longrightarrow> q \<in> set (views gs) \<Longrightarrow> p + 6 \<le> q \<or> q + 6 \<le> p"
    and "strain g = Some p \<Longrightarrow> q \<in> set (views gs) \<Longrightarrow> p + 6 \<le> q \<or> q + 6 \<le> p"
    and "stress g = Some p \<Longrightarrow> strain g = Some p' \<Longrightarrow> p + 6 \<le> p' \<or> p' + 6 \<le> p"
  using assms by (auto simp: views_Cons apart_append split: option.splits)

lemma geostaticGaussPt_writes:
  assumes "stress g = Some ps"
  shows "\<exists>h'. geostaticGaussPt G N par values g h = Inr h' \<and>
           h' (ps + 1) = linearInterpolation N
             (mat_vec (geo_NB G par (geo_N G par (xi g))) (geo_coordinates G par) ! 1)
             (values 1) (values 3) (values 0) (values 2) \<and>
           h' ps = values 4 * h' (ps + 1) \<and>
           h' (ps + 2) = values 5 * h' (ps + 1) \<and>
           (\<forall>a. a < ps \<or> ps + 3 \<le> a \<longrightarrow> h' a = h a)"
  using assms by (simp add: geostaticGaussPt_def Let_def)

lemma geostaticLoop_frame:
  assumes "geostaticLoop G N par values gs h = Inr h'"
      and "\<forall>g \<in> set gs. \<forall>ps. stress g = Some ps \<longrightarrow> a < ps \<or> ps + 3 \<le> a"
  shows "h' a = h a"
  using assms
proof (induction gs arbitrary: h)
  case Nil
  then show ?case by simp
next
  case (Cons g gs)
  from Cons.prems(1) obtain ps where ps: "stress g = Some ps"
    by (cases "stress g") (simp_all add: geostaticGaussPt_def)
  from geostaticGaussPt_writes [OF ps, of G N par "values" h] obtain h1 where
    h1: "geostaticGaussPt G N par values g h = Inr h1"
        "\<forall>a. a < ps \<or> ps + 3 \<le> a \<longrightarrow> h1 a = h a"
    by blast
  from Cons.prems(1) h1(1) have "geostaticLoop G N par values gs h1 = Inr h'" by simp
  from Cons.IH [OF this] Cons.prems(2) have "h' a = h1 a" by simp
  moreover from Cons.prems(2) ps have "a < ps \<or> ps + 3 \<le> a" by simp
  ultimately show ?case using h1(2) by simp
qed

lemma geostaticLoop_sets:
  assumes "\<forall>g \<in> set gs. stress g \<noteq> None" and "apart (views gs)"
  shows "\<exists>h'. geostaticLoop G N par values gs h = Inr h' \<and>
           (\<forall>i < length gs. \<exists>ps. stress (gs ! i) = Some ps \<and>
              h' (ps + 1) = linearInterpolation N
                (mat_vec (geo_NB G par (geo_N G par (xi (gs ! i)))) (geo_coordinates G par) ! 1)
                (values 1) (values 3) (values 0) (values 2) \<and>
              h' ps = values 4 * h' (ps + 1) \<and>
              h' (ps + 2) = values 5 * h' (ps + 1))"
  using assms
proof (induction gs arbitrary: h)
  case Nil
  then show ?case by simp
next
  case (Cons g gs)
  let ?y = "\<lambda>g. mat_vec (geo_NB G par (geo_N G par (xi g))) (geo_coordinates G par) ! 1"
  let ?L = "\<lambda>g. linearInterpolation N (?y g) (values 1) (values 3) (values 0) (values 2)"
  from Cons.prems(1) obtain ps where ps: "stress g = Some ps" by auto
  from geostaticGaussPt_writes [OF ps, of G N par "values" h] obtain h1 where
    h1: "geostaticGaussPt G N par values g h = Inr h1"
        "h1 (ps + 1) = ?L g" "h1 ps = values 4 * h1 (ps + 1)"
        "h1 (ps + 2) = values 5 * h1 (ps + 1)"
    by blast
  note ap = apart_views_Cons [OF Cons.prems(2)]
  from Cons.prems(1) have "\<forall>g \<in> set gs. stress g \<noteq> None" by simp
  from Cons.IH [OF this ap(1), of h1] obtain h' where
    r: "geostaticLoop G N par values gs h1 = Inr h'"
    and l: "\<forall>i < length gs. \<exists>ps. stress (gs ! i) = Some ps \<and>
              h' (ps + 1) = ?L (gs ! i) \<and> h' ps = values 4 * h' (ps + 1) \<and>
              h' (ps + 2) = values 5 * h' (ps + 1)"
    by blast
  have keep: "h' a = h1 a" if "ps \<le> a" "a < ps + 3" for a
  proof (rule geostaticLoop_frame [OF r], intro ballI allI impI)
    fix g' q assume "g' \<in> set gs" "stress g' = Some q"
    then have "q \<in> set (views gs)" by (rule stress_in_views)
    from ap(2) [OF ps this] that show "a < q \<or> q + 3 \<le> a" by linarith
  qed
  have e: "geostaticLoop G N par values (g # gs) h = Inr h'"
    by (simp add: h1(1) r)
  have "\<exists>ps. stress ((g # gs) ! i) = Some ps \<and>
              h' (ps + 1) = ?L ((g # gs) ! i) \<and> h' ps = values 4 * h' (ps + 1) \<and>
              h' (ps + 2) = values 5 * h' (ps + 1)" if "i < length (g # gs)" for i
  proof (cases i)
    case 0
    have "h' ps = h1 ps" "h' (ps + 1) = h1 (ps + 1)" "h' (ps + 2) = h1 (ps + 2)"
      by (rule keep; simp)+
    with h1 ps 0 show ?thesis by simp
  next
    case (Suc j)
    with that l show ?thesis by simp
  qed
  with e show ?case by blast
qed

text \<open>
  C8. \<^verbatim>\<open>setInitialConditions(GeostaticStress, values)\<close> on an element with
  \<open>nDim > 1\<close>, all stress views bound and no two views sharing a cell: for every
  Gauss point, \<open>stress(1)\<close> is \<^verbatim>\<open>linearInterpolation\<close> of the second physical coordinate
  of the Gauss point with the abscissae \<open>values[1]\<close>, \<open>values[3]\<close> and the ordinates
  \<open>values[0]\<close>, \<open>values[2]\<close>; \<open>stress(0)\<close> is \<open>values[4]\<close> times \<open>stress(1)\<close> and
  \<open>stress(2)\<close> is \<open>values[5]\<close> times \<open>stress(1)\<close>.
\<close>

theorem setInitialConditions_geostatic:
  assumes "1 < nDim el"
      and "\<forall>gp \<in> set (gaussPts el). stress gp \<noteq> None"
      and "apart (views (gaussPts el))"
  shows "\<exists>h'. setInitialConditions G N el GeostaticStress values h = Inr h' \<and>
           (\<forall>i < length (gaussPts el). \<exists>ps. stress (gaussPts el ! i) = Some ps \<and>
              h' (ps + 1) = linearInterpolation N
                (mat_vec (geo_NB G (parent el) (geo_N G (parent el) (xi (gaussPts el ! i))))
                   (geo_coordinates G (parent el)) ! 1)
                (values 1) (values 3) (values 0) (values 2) \<and>
              h' ps = values 4 * h' (ps + 1) \<and>
              h' (ps + 2) = values 5 * h' (ps + 1))"
  using geostaticLoop_sets [OF assms(2,3), of G N "parent el" "values" h] assms(1)
  by (simp add: setInitialConditions_def)

theorem setInitialConditions_geostatic_witness:
  "\<exists>h'. setInitialConditions exGeometry exNumerics triangle GeostaticStress geostaticValues zeroMemory
           = Inr h' \<and>
         read6 h' 0 = [- 4, - 8, - 2, 0, 0, 0] \<and> read6 h' 12 = [- 4, - 8, - 2, 0, 0, 0]"
proof -
  have a: "1 < nDim triangle" "\<forall>gp \<in> set (gaussPts triangle). stress gp \<noteq> None"
    "apart (views (gaussPts triangle))"
    by (simp_all add: triangle_def tough_def brittle_def views_def)
  from setInitialConditions_geostatic [OF a, of exGeometry exNumerics geostaticValues zeroMemory] 
  obtain h' where r: "setInitialConditions exGeometry exNumerics triangle GeostaticStress geostaticValues zeroMemory
           = Inr h'" by blast
  then show ?thesis
    by (auto simp: setInitialConditions_def triangle_def tough_def brittle_def geostaticGaussPt_def
      exGeometry_def exNumerics_def geostaticValues_def mat_vec_def dot_def zeroMemory_def read6_def Let_def upt_rec)
qed

subsection \<open>The computation kernel\<close>

lemma callMaterial_Inr:
  assumes "callMaterial f dE6 time dT gp k = Inr (gp', k', C66)"
  shows "\<exists>m ps m' sig p. material gp = Some m \<and> stress gp = Some ps \<and>
           f m (read6 (mem k) ps) dE6 time dT (pNewDT k) = (m', sig, C66, p) \<and>
           gp' = gp\<lparr>material := Some m'\<rparr> \<and>
           k' = k\<lparr>mem := write6 (mem k) ps sig, pNewDT := p\<rparr>"
  using assms
  by (auto simp: callMaterial_def split: option.splits prod.splits)

lemma takeStressAddStrain_Inr:
  assumes "takeStressAddStrain g dE6 gp k = Inr k'"
  shows "\<exists>ps pe. stress gp = Some ps \<and> strain gp = Some pe \<and>
           k' = k\<lparr>S := g (read6 (mem k) ps), mem := addTo (mem k) pe dE6\<rparr>"
  using assms
  by (auto simp: takeStressAddStrain_def split: option.splits)

lemma dispatched_cases:
  assumes "dispatched M nd sec = Some f"
  obtains "nd = 1" "f = computeUniaxialStress M"
    | "nd = 2" "sec = PlaneStress" "f = computePlaneStress M"
    | "nd = 2" "sec = PlaneStrain" "f = computeStress M"
    | "nd = 3" "sec = Solid" "f = computeStress M"
  using assms by (auto simp: dispatched_def split: if_splits)

lemma materialUpdate_dispatched:
  assumes u: "materialUpdate M N nd sec dQ time dT geo gp k = Inr (gp', k')"
      and d: "dispatched M nd sec = Some f"
  shows "\<exists>m ps m' sig C66 p. material gp = Some m \<and> stress gp = Some ps \<and>
           f m (read6 (mem k) ps) (expanded N nd (mat_vec (B geo) dQ)) time dT (pNewDT k)
             = (m', sig, C66, p) \<and>
           gp' = gp\<lparr>material := Some m'\<rparr> \<and> pNewDT k' = p \<and> Ke k' = Ke k \<and> Pe k' = Pe k \<and>
           (if nd = 1 then mem k' = write6 (mem k) ps sig
            else \<exists>pe. strain gp = Some pe \<and>
                   mem k' = addTo (write6 (mem k) ps sig) pe (expanded N nd (mat_vec (B geo) dQ)))"
  using d
proof (cases rule: dispatched_cases)
  case 1
  with u obtain k1 C66 where
    c: "callMaterial f (mat_vec (B geo) dQ @ [0, 0, 0, 0, 0]) time dT gp k = Inr (gp', k1, C66)"
    and k': "k' = k1\<lparr>C := [[getUniaxialStressTangent N C66]]\<rparr>"
    by (auto simp: materialUpdate_def Let_def split: sum.splits)
  from callMaterial_Inr [OF c] k' 1 show ?thesis
    by (auto simp: expanded_def)
next
  case 2
  with u obtain g1 k1 C66 where
    c: "callMaterial f (planeVoigtToVoigt N (mat_vec (B geo) dQ)) time dT gp k = Inr (g1, k1, C66)"
    and t: "takeStressAddStrain (voigtToPlaneVoigt N) (planeVoigtToVoigt N (mat_vec (B geo) dQ))
              g1 (k1\<lparr>C := getPlaneStressTangent N C66\<rparr>) = Inr k'"
    and g: "gp' = g1"
    by (auto simp: materialUpdate_def Let_def split: sum.splits)
  from callMaterial_Inr [OF c] takeStressAddStrain_Inr [OF t] g 2 show ?thesis
    by (auto simp: expanded_def)
next
  case 3
  with u obtain g1 k1 C66 where
    c: "callMaterial f (planeVoigtToVoigt N (mat_vec (B geo) dQ)) time dT gp k = Inr (g1, k1, C66)"
    and t: "takeStressAddStrain (voigtToPlaneVoigt N) (planeVoigtToVoigt N (mat_vec (B geo) dQ))
              g1 (k1\<lparr>C := getPlaneStrainTangent N C66\<rparr>) = Inr k'"
    and g: "gp' = g1"
    by (auto simp: materialUpdate_def Let_def split: sum.splits)
  from callMaterial_Inr [OF c] takeStressAddStrain_Inr [OF t] g 3 show ?thesis
    by (auto simp: expanded_def)
next
  case 4
  with u obtain g1 k1 C66 where
    c: "callMaterial f (mat_vec (B geo) dQ) time dT gp k = Inr (g1, k1, C66)"
    and t: "takeStressAddStrain (\<lambda>v. v) (mat_vec (B geo) dQ) g1 (k1\<lparr>C := C66\<rparr>) = Inr k'"
    and g: "gp' = g1"
    by (auto simp: materialUpdate_def Let_def split: sum.splits)
  from callMaterial_Inr [OF c] takeStressAddStrain_Inr [OF t] g 4 show ?thesis
    by (auto simp: expanded_def)
qed

lemma materialUpdate_undispatched:
  assumes u: "materialUpdate M N nd sec dQ time dT geo gp k = Inr (gp', k')"
      and d: "dispatched M nd sec = None"
  shows "gp' = gp \<and> pNewDT k' = pNewDT k \<and> Ke k' = Ke k \<and> Pe k' = Pe k \<and>
           (if nd = 2 \<or> nd = 3
            then \<exists>pe. strain gp = Some pe \<and>
                   mem k' = addTo (mem k) pe (expanded N nd (mat_vec (B geo) dQ))
            else mem k' = mem k)"
proof -
  from d have nd: "nd \<noteq> 1" "nd = 2 \<longrightarrow> sec \<noteq> PlaneStress \<and> sec \<noteq> PlaneStrain" "nd = 3 \<longrightarrow> sec \<noteq> Solid"
    by (auto simp: dispatched_def split: if_splits)
  consider "nd = 2" | "nd = 3" | "nd \<noteq> 2" "nd \<noteq> 3" by blast
  then show ?thesis
  proof cases
    case 1
    with u nd have "takeStressAddStrain (voigtToPlaneVoigt N) (planeVoigtToVoigt N (mat_vec (B geo) dQ)) gp k = Inr k'"
      and "gp' = gp"
      by (auto simp: materialUpdate_def Let_def split: sum.splits)
    from takeStressAddStrain_Inr [OF this(1)] this(2) 1 show ?thesis
      by (auto simp: expanded_def)
  next
    case 2
    with u nd have "takeStressAddStrain (\<lambda>v. v) (mat_vec (B geo) dQ) gp k = Inr k'"
      and "gp' = gp"
      by (auto simp: materialUpdate_def Let_def split: sum.splits)
    from takeStressAddStrain_Inr [OF this(1)] this(2) 2 show ?thesis
      by (auto simp: expanded_def)
  next
    case 3
    with u nd show ?thesis by (simp add: materialUpdate_def)
  qed
qed

lemma addTo_outside: "a < p \<or> p + 6 \<le> a \<Longrightarrow> addTo h p v a = h a"
  by (simp add: addTo_def write6_outside)

lemma read6_write6_agree:
  assumes "\<And>a. p \<le> a \<Longrightarrow> a < p + 6 \<Longrightarrow> h1 a = h2 a"
  shows "read6 (write6 h1 p v) p = read6 (write6 h2 p v) p"
  by (rule read6_cong) (simp add: write6_def assms)

lemma stressLeftBy_agree:
  assumes "\<And>a. ps \<le> a \<Longrightarrow> a < ps + 6 \<Longrightarrow> h1 a = h2 a"
  shows "stressLeftBy f m h1 ps dE6 time dT p = stressLeftBy f m h2 ps dE6 time dT p"
proof -
  have "read6 h1 ps = read6 h2 ps" by (rule read6_cong) (rule assms)
  then show ?thesis
    by (simp add: stressLeftBy_def read6_write6_agree [of ps h1 h2, OF assms] split: prod.splits)
qed

lemma incremented_agree:
  assumes "\<And>a. pe \<le> a \<Longrightarrow> a < pe + 6 \<Longrightarrow> h1 a = h2 a"
  shows "incremented h1 pe v = incremented h2 pe v"
proof -
  have "read6 h1 pe = read6 h2 pe" by (rule read6_cong) (rule assms)
  then show ?thesis
    by (simp add: incremented_def addTo_def read6_write6_agree [of pe h1 h2, OF assms])
qed

lemma materialUpdate_keeps:
  assumes "materialUpdate M N nd sec dQ time dT geo gp k = Inr (gp', k')"
  shows "stress gp' = stress gp" and "strain gp' = strain gp" and "geometry gp' = geometry gp"
    and "Ke k' = Ke k" and "Pe k' = Pe k"
proof -
  have "stress gp' = stress gp \<and> strain gp' = strain gp \<and> geometry gp' = geometry gp \<and>
        Ke k' = Ke k \<and> Pe k' = Pe k"
  proof (cases "dispatched M nd sec")
    case None
    from materialUpdate_undispatched [OF assms None] show ?thesis by simp
  next
    case (Some f)
    from materialUpdate_dispatched [OF assms Some] show ?thesis by auto
  qed
  then show "stress gp' = stress gp" and "strain gp' = strain gp" and "geometry gp' = geometry gp"
    and "Ke k' = Ke k" and "Pe k' = Pe k" by simp_all
qed

lemma materialUpdate_frame:
  assumes u: "materialUpdate M N nd sec dQ time dT geo gp k = Inr (gp', k')"
      and s: "\<And>ps. stress gp = Some ps \<Longrightarrow> a < ps \<or> ps + 6 \<le> a"
      and e: "\<And>pe. strain gp = Some pe \<Longrightarrow> a < pe \<or> pe + 6 \<le> a"
  shows "mem k' a = mem k a"
proof (cases "dispatched M nd sec")
  case None
  from materialUpdate_undispatched [OF u None] e show ?thesis
    by (auto simp: addTo_outside split: if_splits)
next
  case (Some f)
  from materialUpdate_dispatched [OF u Some] s e show ?thesis
    by (auto simp: addTo_outside write6_outside split: if_splits)
qed

lemma materialUpdate_contents:
  assumes u: "materialUpdate M N nd sec dQ time dT geo gp k = Inr (gp', k')"
      and d: "dispatched M nd sec = Some f"
      and ap: "\<And>ps pe. stress gp = Some ps \<Longrightarrow> strain gp = Some pe \<Longrightarrow> ps + 6 \<le> pe \<or> pe + 6 \<le> ps"
  shows "\<exists>m ps. material gp = Some m \<and> stress gp = Some ps \<and>
           read6 (mem k') ps
             = stressLeftBy f m (mem k) ps (expanded N nd (mat_vec (B geo) dQ)) time dT (pNewDT k) \<and>
           pNewDT k'
             = fractionLeftBy f m (mem k) ps (expanded N nd (mat_vec (B geo) dQ)) time dT (pNewDT k) \<and>
           (nd \<noteq> 1 \<longrightarrow> (\<exists>pe. strain gp = Some pe \<and>
              read6 (mem k') pe = incremented (mem k) pe (expanded N nd (mat_vec (B geo) dQ))))"
proof -
  let ?dE6 = "expanded N nd (mat_vec (B geo) dQ)"
  from materialUpdate_dispatched [OF u d] obtain m ps m' sig C66 p where
    m: "material gp = Some m" and ps: "stress gp = Some ps"
    and f: "f m (read6 (mem k) ps) ?dE6 time dT (pNewDT k) = (m', sig, C66, p)"
    and p: "pNewDT k' = p"
    and h: "if nd = 1 then mem k' = write6 (mem k) ps sig
            else \<exists>pe. strain gp = Some pe \<and> mem k' = addTo (write6 (mem k) ps sig) pe ?dE6"
    by blast
  have sl: "stressLeftBy f m (mem k) ps ?dE6 time dT (pNewDT k) = read6 (write6 (mem k) ps sig) ps"
    by (simp add: stressLeftBy_def f)
  have fl: "fractionLeftBy f m (mem k) ps ?dE6 time dT (pNewDT k) = p"
    by (simp add: fractionLeftBy_def f)
  show ?thesis
  proof (cases "nd = 1")
    case True
    with h m ps p sl fl show ?thesis by simp
  next
    case False
    with h obtain pe where pe: "strain gp = Some pe"
      and k': "mem k' = addTo (write6 (mem k) ps sig) pe ?dE6" by auto
    from ap [OF ps pe] have apart: "ps + 6 \<le> pe \<or> pe + 6 \<le> ps" .
    have "read6 (mem k') ps = read6 (write6 (mem k) ps sig) ps"
      unfolding k' by (rule read6_cong) (use apart in \<open>auto simp: addTo_outside\<close>)
    moreover have "read6 (mem k') pe = incremented (mem k) pe ?dE6"
      unfolding k' incremented_def [symmetric]
      by (rule incremented_agree) (use apart in \<open>auto simp: write6_outside\<close>)
    ultimately show ?thesis using m ps pe p sl fl by simp
  qed
qed

lemma gaussPtLoop_frame:
  assumes "finalKernel (gaussPtLoop M N nd sec dQ time dT passed gs k) = Some k'"
      and "\<forall>p \<in> set (views gs). a < p \<or> p + 6 \<le> a"
  shows "mem k' a = mem k a"
  using assms
proof (induction gs arbitrary: passed k)
  case Nil
  then show ?case by simp
next
  case (Cons g gs)
  from Cons.prems(1) obtain geo where geo: "geometry g = Some geo"
    by (cases "geometry g") simp_all
  from Cons.prems(1) geo obtain g' k1 where
    u: "materialUpdate M N nd sec dQ time dT geo g k = Inr (g', k1)"
    by (cases "materialUpdate M N nd sec dQ time dT geo g k") auto
  have v: "\<forall>p \<in> set (views gs). a < p \<or> p + 6 \<le> a"
    using Cons.prems(2) by (simp add: views_Cons)
  have "mem k1 a = mem k a"
  proof (rule materialUpdate_frame [OF u])
    fix ps assume "stress g = Some ps"
    with Cons.prems(2) show "a < ps \<or> ps + 6 \<le> a" by (simp add: views_Cons)
  next
    fix pe assume "strain g = Some pe"
    with Cons.prems(2) show "a < pe \<or> pe + 6 \<le> a" by (simp add: views_Cons split: option.splits)
  qed
  moreover have "mem k' a = mem k1 a"
  proof (cases "pNewDT k1 < 1")
    case True
    with Cons.prems(1) geo u show ?thesis by simp
  next
    case False
    with Cons.prems(1) geo u have
      "finalKernel (gaussPtLoop M N nd sec dQ time dT (passed @ [g']) gs (assemble geo k1)) = Some k'"
      by simp
    from Cons.IH [OF this v] show ?thesis by (simp add: assemble_def)
  qed
  ultimately show ?case by simp
qed

lemma stressLeftBy_eq:
  "f m (read6 h ps) dE6 time dT p = (m', sig, C66, p') \<Longrightarrow> length sig = 6 \<Longrightarrow>
   stressLeftBy f m h ps dE6 time dT p = sig"
  by (simp add: stressLeftBy_def read6_write6_same)

lemma incremented_eq: "length v = 6 \<Longrightarrow> incremented h pe v = vec_add (read6 h pe) v"
  by (simp add: incremented_def addTo_def read6_write6_same vec_add_def length_read6)

lemma gaussPtLoop_cutback:
  assumes "gaussPtLoop M N nd sec dQ time dT passed gs k = Inr (CutBackRequested kk gps' k')"
  shows "\<exists>j passed' kj geo g'.
           kk = length passed + j \<and> j < length gs \<and>
           gaussPtLoop M N nd sec dQ time dT passed (take j gs) k = Inr (Completed passed' kj) \<and>
           geometry (gs ! j) = Some geo \<and>
           materialUpdate M N nd sec dQ time dT geo (gs ! j) kj = Inr (g', k') \<and>
           pNewDT k' < 1 \<and> Ke k' = Ke kj \<and> Pe k' = Pe kj \<and>
           gps' = passed' @ g' # drop (Suc j) gs"
  using assms
proof (induction gs arbitrary: passed k)
  case Nil
  then show ?case by simp
next
  case (Cons g gs)
  from Cons.prems obtain geo where geo: "geometry g = Some geo"
    by (cases "geometry g") simp_all
  from Cons.prems geo obtain g1 k1 where
    u: "materialUpdate M N nd sec dQ time dT geo g k = Inr (g1, k1)"
    by (cases "materialUpdate M N nd sec dQ time dT geo g k") auto
  show ?case
  proof (cases "pNewDT k1 < 1")
    case True
    with Cons.prems geo u have "kk = length passed" "gps' = passed @ g1 # gs" "k' = k1"
      by simp_all
    with geo u True materialUpdate_keeps(4,5) [OF u] show ?thesis
      by (intro exI [of _ 0] exI [of _ passed] exI [of _ k] exI [of _ geo] exI [of _ g1]) simp
  next
    case False
    with Cons.prems geo u have
      "gaussPtLoop M N nd sec dQ time dT (passed @ [g1]) gs (assemble geo k1)
         = Inr (CutBackRequested kk gps' k')"
      by simp
    from Cons.IH [OF this] obtain j passed' kj geo' g' where
      j: "kk = length (passed @ [g1]) + j" "j < length gs"
      and r: "gaussPtLoop M N nd sec dQ time dT (passed @ [g1]) (take j gs) (assemble geo k1)
                = Inr (Completed passed' kj)"
      and s: "geometry (gs ! j) = Some geo'"
         "materialUpdate M N nd sec dQ time dT geo' (gs ! j) kj = Inr (g', k')"
         "pNewDT k' < 1" "Ke k' = Ke kj" "Pe k' = Pe kj" "gps' = passed' @ g' # drop (Suc j) gs"
      by blast
    have "gaussPtLoop M N nd sec dQ time dT passed (take (Suc j) (g # gs)) k
            = Inr (Completed passed' kj)"
      using geo u False r by simp
    with j s show ?thesis
      by (intro exI [of _ "Suc j"] exI [of _ passed'] exI [of _ kj] exI [of _ geo'] exI [of _ g'])
         simp
  qed
qed

lemma gaussPtLoop_keeps:
  assumes "gaussPtLoop M N nd sec dQ time dT passed gs k = Inr (CutBackRequested kk gps' k')"
      and "apart (views gs)"
      and "dispatched M nd sec = Some f"
      and "length passed + i \<le> kk"
  shows "\<exists>passed' ki geo m ps.
           gaussPtLoop M N nd sec dQ time dT passed (take i gs) k = Inr (Completed passed' ki) \<and>
           i < length gs \<and> geometry (gs ! i) = Some geo \<and>
           material (gs ! i) = Some m \<and> stress (gs ! i) = Some ps \<and>
           read6 (mem k') ps
             = stressLeftBy f m (mem k) ps (expanded N nd (mat_vec (B geo) dQ)) time dT (pNewDT ki) \<and>
           (nd \<noteq> 1 \<longrightarrow> (\<exists>pe. strain (gs ! i) = Some pe \<and>
              read6 (mem k') pe = incremented (mem k) pe (expanded N nd (mat_vec (B geo) dQ))))"
  using assms
proof (induction gs arbitrary: passed k i)
  case Nil
  then show ?case by simp
next
  case (Cons g gs)
  note ap = apart_views_Cons [OF Cons.prems(2)]
  note d = Cons.prems(3)
  from Cons.prems(1) obtain geo where geo: "geometry g = Some geo"
    by (cases "geometry g") simp_all
  from Cons.prems(1) geo obtain g1 k1 where
    u: "materialUpdate M N nd sec dQ time dT geo g k = Inr (g1, k1)"
    by (cases "materialUpdate M N nd sec dQ time dT geo g k") auto
  let ?dE6 = "\<lambda>geo. expanded N nd (mat_vec (B geo) dQ)"
  from materialUpdate_contents [OF u d ap(4)] obtain m ps where
    m: "material g = Some m" and ps: "stress g = Some ps"
    and c1: "read6 (mem k1) ps = stressLeftBy f m (mem k) ps (?dE6 geo) time dT (pNewDT k)"
    and c2: "nd \<noteq> 1 \<longrightarrow> (\<exists>pe. strain g = Some pe \<and>
               read6 (mem k1) pe = incremented (mem k) pe (?dE6 geo))"
    by blast
  \<comment> \<open>what follows this Gauss point leaves its two views alone\<close>
  have later: "read6 (mem k') q = read6 (mem k1) q"
    if q: "stress g = Some q \<or> strain g = Some q" for q
  proof (cases "pNewDT k1 < 1")
    case True
    with Cons.prems(1) geo u show ?thesis by simp
  next
    case False
    with Cons.prems(1) geo u have
      "finalKernel (gaussPtLoop M N nd sec dQ time dT (passed @ [g1]) gs (assemble geo k1)) = Some k'"
      by simp
    have "mem k' a = mem (assemble geo k1) a" if "q \<le> a" "a < q + 6" for a
    proof (rule gaussPtLoop_frame [OF \<open>finalKernel _ = Some k'\<close>], rule ballI)
      fix p assume "p \<in> set (views gs)"
      with q ap(2,3) [of q p] have "q + 6 \<le> p \<or> p + 6 \<le> q" by blast
      with that show "a < p \<or> p + 6 \<le> a" by linarith
    qed
    then have "read6 (mem k') q = read6 (mem (assemble geo k1)) q" by (rule read6_cong)
    then show ?thesis by (simp add: assemble_def)
  qed
  show ?case
  proof (cases i)
    case 0
    from later ps c1 have "read6 (mem k') ps
        = stressLeftBy f m (mem k) ps (?dE6 geo) time dT (pNewDT k)" by simp
    moreover from later c2 have "nd \<noteq> 1 \<longrightarrow> (\<exists>pe. strain g = Some pe \<and>
               read6 (mem k') pe = incremented (mem k) pe (?dE6 geo))" by auto
    ultimately show ?thesis using 0 geo m ps by simp
  next
    case (Suc j)
    with Cons.prems(4) have "length passed < kk" by simp
    with Cons.prems(1) geo u have nc: "\<not> pNewDT k1 < 1"
      by (auto split: if_splits)
    with Cons.prems(1) geo u have run:
      "gaussPtLoop M N nd sec dQ time dT (passed @ [g1]) gs (assemble geo k1)
         = Inr (CutBackRequested kk gps' k')"
      by simp
    from Suc Cons.prems(4) have "length (passed @ [g1]) + j \<le> kk" by simp
    from Cons.IH [OF run ap(1) d this] obtain passed' ki geo' m' q where
      r: "gaussPtLoop M N nd sec dQ time dT (passed @ [g1]) (take j gs) (assemble geo k1)
            = Inr (Completed passed' ki)"
      and j: "j < length gs" "geometry (gs ! j) = Some geo'" "material (gs ! j) = Some m'"
         "stress (gs ! j) = Some q"
      and s1: "read6 (mem k') q
             = stressLeftBy f m' (mem (assemble geo k1)) q (?dE6 geo') time dT (pNewDT ki)"
      and s2: "nd \<noteq> 1 \<longrightarrow> (\<exists>pe. strain (gs ! j) = Some pe \<and>
              read6 (mem k') pe = incremented (mem (assemble geo k1)) pe (?dE6 geo'))"
      by blast
    \<comment> \<open>this Gauss point leaves the views of the later ones alone\<close>
    have earlier: "mem (assemble geo k1) a = mem k a"
      if "p \<in> set (views gs)" "p \<le> a" "a < p + 6" for p a
    proof -
      have "mem k1 a = mem k a"
      proof (rule materialUpdate_frame [OF u])
        fix x assume "stress g = Some x"
        from ap(2) [OF this that(1)] that(2,3) show "a < x \<or> x + 6 \<le> a" by linarith
      next
        fix x assume "strain g = Some x"
        from ap(3) [OF this that(1)] that(2,3) show "a < x \<or> x + 6 \<le> a" by linarith
      qed
      then show ?thesis by (simp add: assemble_def)
    qed
    have qv: "q \<in> set (views gs)"
      by (rule stress_in_views [OF nth_mem [OF j(1)] j(4)])
    have "stressLeftBy f m' (mem (assemble geo k1)) q (?dE6 geo') time dT (pNewDT ki)
            = stressLeftBy f m' (mem k) q (?dE6 geo') time dT (pNewDT ki)"
      by (rule stressLeftBy_agree) (rule earlier [OF qv])
    with s1 have t1: "read6 (mem k') q
             = stressLeftBy f m' (mem k) q (?dE6 geo') time dT (pNewDT ki)" by simp
    have t2: "nd \<noteq> 1 \<longrightarrow> (\<exists>pe. strain (gs ! j) = Some pe \<and>
              read6 (mem k') pe = incremented (mem k) pe (?dE6 geo'))"
    proof
      assume "nd \<noteq> 1"
      with s2 obtain pe where pe: "strain (gs ! j) = Some pe"
        "read6 (mem k') pe = incremented (mem (assemble geo k1)) pe (?dE6 geo')" by blast
      have "pe \<in> set (views gs)" by (rule strain_in_views [OF nth_mem [OF j(1)] pe(1)])
      then have "incremented (mem (assemble geo k1)) pe (?dE6 geo')
                   = incremented (mem k) pe (?dE6 geo')"
        by (intro incremented_agree earlier)
      with pe show "\<exists>pe. strain (gs ! j) = Some pe \<and>
              read6 (mem k') pe = incremented (mem k) pe (?dE6 geo')" by simp
    qed
    have "gaussPtLoop M N nd sec dQ time dT passed (take i (g # gs)) k
            = Inr (Completed passed' ki)"
      using Suc geo u nc r by simp
    with Suc j t1 t2 show ?thesis by simp
  qed
qed

text \<open>The views that \<^verbatim>\<open>assignStateVars\<close> binds share no cell when every block has room for them.\<close>

lemma apart_slots:
  assumes "12 \<le> blk"
  shows "apart (concat (map (\<lambda>i. [stressSlot b blk i, strainSlot b blk i]) [j..<j + n]))"
proof (induction n arbitrary: j)
  case 0
  then show ?case by simp
next
  case (Suc n)
  have up: "[j..<j + Suc n] = j # [Suc j..<Suc j + n]"
    by (simp add: upt_rec)
  have far: "strainSlot b blk j + 6 \<le> q"
    if "q \<in> set (concat (map (\<lambda>i. [stressSlot b blk i, strainSlot b blk i]) [Suc j..<Suc j + n]))"
    for q
  proof -
    from that have "\<exists>i \<in> set [Suc j..<Suc j + n]. q \<in> set [stressSlot b blk i, strainSlot b blk i]"
      unfolding set_concat set_map by blast
    then obtain i where i: "Suc j \<le> i" and q: "q = stressSlot b blk i \<or> q = strainSlot b blk i"
      unfolding set_upt by auto
    from i have "int (Suc j) * blk \<le> int i * blk"
      using assms by (intro mult_right_mono) simp_all
    then have "int j * blk + blk \<le> int i * blk" by (simp add: algebra_simps)
    with q assms show ?thesis by (auto simp: stressSlot_def strainSlot_def)
  qed
  let ?rest = "concat (map (\<lambda>i. [stressSlot b blk i, strainSlot b blk i]) [Suc j..<Suc j + n])"
  have e: "concat (map (\<lambda>i. [stressSlot b blk i, strainSlot b blk i]) [j..<j + Suc n])
             = [stressSlot b blk j, strainSlot b blk j] @ ?rest"
    by (subst up) (simp only: list.map concat.simps append.simps)
  have s: "stressSlot b blk j + 6 = strainSlot b blk j"
    by (simp add: stressSlot_def strainSlot_def)
  have "apart [stressSlot b blk j, strainSlot b blk j]"
    using s by simp
  moreover have "apart ?rest" by (rule Suc.IH)
  moreover have "\<forall>p \<in> set [stressSlot b blk j, strainSlot b blk j]. \<forall>q \<in> set ?rest.
                   p + 6 \<le> q \<or> q + 6 \<le> p"
  proof (intro ballI)
    fix p q assume p: "p \<in> set [stressSlot b blk j, strainSlot b blk j]" and q: "q \<in> set ?rest"
    from p s have "p \<le> strainSlot b blk j" by auto
    with far [OF q] show "p + 6 \<le> q \<or> q + 6 \<le> p" by linarith
  qed
  ultimately show ?case
    unfolding e apart_append by blast
qed

lemma views_nth:
  assumes "\<forall>i < length gps. stress (gps ! i) = Some (s i) \<and> strain (gps ! i) = Some (e i)"
  shows "views gps = concat (map (\<lambda>i. [s i, e i]) [0..<length gps])"
proof -
  have "map (\<lambda>gp. [p. Some p \<leftarrow> [stress gp, strain gp]]) gps
          = map (\<lambda>i. [s i, e i]) [0..<length gps]"
    using assms by (intro nth_equalityI) simp_all
  then show ?thesis by (simp add: views_def)
qed

lemma assignStateVars_apart:
  assumes ne: "gaussPts el \<noteq> []"
      and mats: "\<forall>gp \<in> set (gaussPts el). material gp \<noteq> None"
      and n: "12 * int (length (gaussPts el)) \<le> totalLength" "totalLength < 2 ^ 31"
      and r: "assignStateVars M el buffer totalLength = Inr el'"
  shows "apart (views (gaussPts el'))"
proof -
  let ?g = "length (gaussPts el)"
  let ?blk = "totalLength div int ?g"
  have g: "0 < int ?g" using ne by simp
  have n0: "0 \<le> totalLength" using n(1) by linarith
  have "12 \<le> ?blk"
    using zdiv_mono1 [OF n(1) g] g by simp
  from assignStateVars_layout [OF ne mats n0 n(2), of M buffer] r
  have l: "length (gaussPts el') = ?g"
    and v: "\<forall>i < ?g. stress (gaussPts el' ! i) = Some (stressSlot buffer ?blk i) \<and>
                      strain (gaussPts el' ! i) = Some (strainSlot buffer ?blk i)"
    by fastforce+
  from views_nth [of "gaussPts el'" "stressSlot buffer ?blk" "strainSlot buffer ?blk"] l v
  have "views (gaussPts el')
          = concat (map (\<lambda>i. [stressSlot buffer ?blk i, strainSlot buffer ?blk i]) [0..<0 + ?g])"
    by simp
  with apart_slots [OF \<open>12 \<le> ?blk\<close>, of buffer 0 ?g] show ?thesis by simp
qed

lemmas ex_defs = computeYourself_def triangle_def tough_def brittle_def triangleGeometry_def
  triangleKernel_def zeros6_def zeroMemory_def exMaterial_def exNumerics_def unitStiffness_def
  materialUpdate_def callMaterial_def takeStressAddStrain_def addTo_def assemble_def mat_vec_def
  dot_def mat_mul_def mat_scale_def vec_scale_def vec_add_def vec_sub_def mat_add_def read6_def
  write6_def pick3_def identity6_def triangleB_def stretch_def bar_def barPoint_def barKernel_def

text \<open>
  C1, as stated, fails. On the triangle the first Gauss point is accepted and the second
  one sets \<^verbatim>\<open>pNewDT\<close> to one half. The call returns there with the fraction one half,
  and \<^verbatim>\<open>Pe\<close>, zero before the call, holds the contribution of the first Gauss point.
\<close>

theorem computeYourself_cutback_modifies_residual:
  "cutBackAt (computeYourself exMaterial exNumerics triangle stretch stretch [0, 1] 1 triangleKernel)
     = Some 1 \<and>
   map_option pNewDT
     (finalKernel (computeYourself exMaterial exNumerics triangle stretch stretch [0, 1] 1 triangleKernel))
     = Some (1 / 2) \<and>
   map_option Pe
     (finalKernel (computeYourself exMaterial exNumerics triangle stretch stretch [0, 1] 1 triangleKernel))
     = Some [1 / 4, 0, - 1 / 4, 0, 0, 0] \<and>
   Pe triangleKernel = [0, 0, 0, 0, 0, 0]"
  by (simp add: ex_defs Let_def upt_rec)

text \<open>
  A call that returns at Gauss point \<open>kk\<close> has completed the loop on the Gauss points
  before \<open>kk\<close> and has found \<^verbatim>\<open>pNewDT\<close> below 1 after the material update at \<open>kk\<close>.
\<close>

lemma computeYourself_cutback_reached:
  assumes run: "computeYourself M N el QTotal dQ time dT k0 = Inr (CutBackRequested kk gps' k')"
  shows "\<exists>passed kj geo g'.
           kk < length (gaussPts el) \<and>
           computeYourself M N (el\<lparr>gaussPts := take kk (gaussPts el)\<rparr>) QTotal dQ time dT k0
             = Inr (Completed passed kj) \<and>
           geometry (gaussPts el ! kk) = Some geo \<and>
           materialUpdate M N (nDim el) (sectionType el) dQ time dT geo (gaussPts el ! kk) kj
             = Inr (g', k') \<and>
           pNewDT k' < 1 \<and> Ke k' = Ke kj \<and> Pe k' = Pe kj \<and>
           (kk = 0 \<longrightarrow> Ke k' = Ke k0 \<and> Pe k' = Pe k0) \<and>
           (\<forall>f. dispatched M (nDim el) (sectionType el) = Some f \<longrightarrow>
              (\<exists>m ps. material (gaussPts el ! kk) = Some m \<and> stress (gaussPts el ! kk) = Some ps \<and>
                 pNewDT k' = fractionLeftBy f m (mem kj) ps
                   (expanded N (nDim el) (mat_vec (B geo) dQ)) time dT (pNewDT kj)))"
proof -
  let ?nd = "nDim el" and ?sec = "sectionType el"
  from gaussPtLoop_cutback [OF run [unfolded computeYourself_def]]
  obtain passed kj geo g' where
    j: "kk < length (gaussPts el)"
    and r: "gaussPtLoop M N ?nd ?sec dQ time dT [] (take kk (gaussPts el)) k0
              = Inr (Completed passed kj)"
    and s: "geometry (gaussPts el ! kk) = Some geo"
    and u: "materialUpdate M N ?nd ?sec dQ time dT geo (gaussPts el ! kk) kj = Inr (g', k')"
    and p: "pNewDT k' < 1" "Ke k' = Ke kj" "Pe k' = Pe kj"
    by auto
  have z: "kk = 0 \<longrightarrow> Ke k' = Ke k0 \<and> Pe k' = Pe k0"
    using r p by auto
  have w: "\<exists>m ps. material (gaussPts el ! kk) = Some m \<and> stress (gaussPts el ! kk) = Some ps \<and>
                 pNewDT k' = fractionLeftBy f m (mem kj) ps
                   (expanded N ?nd (mat_vec (B geo) dQ)) time dT (pNewDT kj)"
    if "dispatched M ?nd ?sec = Some f" for f
    using materialUpdate_dispatched [OF u that] by (auto simp: fractionLeftBy_def)
  from j r s u p z w show ?thesis
    by (simp add: computeYourself_def)
qed

lemma gaussPtLoop_completed_length:
  "gaussPtLoop M N nd sec dQ time dT passed gs k = Inr (Completed passed' k') \<Longrightarrow>
   length passed' = length passed + length gs"
proof (induction gs arbitrary: passed k)
  case Nil
  then show ?case by simp
next
  case (Cons g gs)
  from Cons.prems obtain geo where geo: "geometry g = Some geo"
    by (cases "geometry g") simp_all
  from Cons.prems geo obtain g1 k1 where
    u: "materialUpdate M N nd sec dQ time dT geo g k = Inr (g1, k1)"
    by (cases "materialUpdate M N nd sec dQ time dT geo g k") auto
  from Cons.prems geo u have
    "gaussPtLoop M N nd sec dQ time dT (passed @ [g1]) gs (assemble geo k1) = Inr (Completed passed' k')"
    by (auto split: if_splits)
  from Cons.IH [OF this] show ?case by simp
qed

lemma gaussPtLoop_reaches:
  assumes "gaussPtLoop M N nd sec dQ time dT passed xs k = Inr (Completed passed' kj)"
  shows "gaussPtLoop M N nd sec dQ time dT passed (xs @ ys) k
           = gaussPtLoop M N nd sec dQ time dT passed' ys kj"
  using assms
proof (induction xs arbitrary: passed k)
  case Nil
  then show ?case by simp
next
  case (Cons g gs)
  from Cons.prems obtain geo where geo: "geometry g = Some geo"
    by (cases "geometry g") simp_all
  from Cons.prems geo obtain g1 k1 where
    u: "materialUpdate M N nd sec dQ time dT geo g k = Inr (g1, k1)"
    by (cases "materialUpdate M N nd sec dQ time dT geo g k") auto
  from Cons.prems geo u have nc: "\<not> pNewDT k1 < 1"
    by (auto split: if_splits)
  with Cons.prems geo u have
    "gaussPtLoop M N nd sec dQ time dT (passed @ [g1]) gs (assemble geo k1) = Inr (Completed passed' kj)"
    by simp
  from Cons.IH [OF this] geo u nc show ?case by simp
qed

text \<open>
  C1, amended. If the loop has completed on the Gauss points before \<open>kk\<close> and the
  material update at Gauss point \<open>kk\<close> leaves \<^verbatim>\<open>pNewDT\<close> below 1, then
  \<^verbatim>\<open>computeYourself\<close> returns there: the kernel state the caller gets is the one that
  material update left, the Gauss points after \<open>kk\<close> are untouched, and \<^verbatim>\<open>Ke\<close> and
  \<^verbatim>\<open>Pe\<close> are what the completed call on the first \<open>kk\<close> Gauss points alone leaves. So
  they carry the contributions of the Gauss points before \<open>kk\<close>, nothing of Gauss point
  \<open>kk\<close> or of a later one, and they are the pre-call values when \<open>kk = 0\<close>. The
  caller's \<^verbatim>\<open>pNewDT\<close> is the fraction the stress update left at Gauss point \<open>kk\<close>.
\<close>

theorem computeYourself_cutback_outputs:
  assumes kk: "kk < length (gaussPts el)"
      and prefix: "computeYourself M N (el\<lparr>gaussPts := take kk (gaussPts el)\<rparr>) QTotal dQ time dT k0
                     = Inr (Completed passed kj)"
      and geo: "geometry (gaussPts el ! kk) = Some geo"
      and upd: "materialUpdate M N (nDim el) (sectionType el) dQ time dT geo (gaussPts el ! kk) kj
                  = Inr (g', k')"
      and cut: "pNewDT k' < 1"
  shows "computeYourself M N el QTotal dQ time dT k0
           = Inr (CutBackRequested kk (passed @ g' # drop (Suc kk) (gaussPts el)) k') \<and>
         Ke k' = Ke kj \<and> Pe k' = Pe kj \<and>
         (kk = 0 \<longrightarrow> Ke k' = Ke k0 \<and> Pe k' = Pe k0) \<and>
         (\<forall>f. dispatched M (nDim el) (sectionType el) = Some f \<longrightarrow>
            (\<exists>m ps. material (gaussPts el ! kk) = Some m \<and> stress (gaussPts el ! kk) = Some ps \<and>
               pNewDT k' = fractionLeftBy f m (mem kj) ps
                 (expanded N (nDim el) (mat_vec (B geo) dQ)) time dT (pNewDT kj)))"
proof -
  let ?nd = "nDim el" and ?sec = "sectionType el" and ?gps = "gaussPts el"
  from prefix have p: "gaussPtLoop M N ?nd ?sec dQ time dT [] (take kk ?gps) k0
                         = Inr (Completed passed kj)"
    by (simp add: computeYourself_def)
  from gaussPtLoop_completed_length [OF p] kk have l: "length passed = kk" by simp
  have split: "?gps = take kk ?gps @ (?gps ! kk) # drop (Suc kk) ?gps"
    using kk by (simp add: id_take_nth_drop [symmetric])
  have "gaussPtLoop M N ?nd ?sec dQ time dT [] ?gps k0
          = gaussPtLoop M N ?nd ?sec dQ time dT [] (take kk ?gps @ (?gps ! kk) # drop (Suc kk) ?gps) k0"
    using split by simp
  also have "\<dots> = gaussPtLoop M N ?nd ?sec dQ time dT passed ((?gps ! kk) # drop (Suc kk) ?gps) kj"
    by (rule gaussPtLoop_reaches [OF p])
  also have "\<dots> = Inr (CutBackRequested kk (passed @ g' # drop (Suc kk) ?gps) k')"
    using geo upd cut l by simp
  finally have run: "computeYourself M N el QTotal dQ time dT k0
           = Inr (CutBackRequested kk (passed @ g' # drop (Suc kk) ?gps) k')"
    by (simp add: computeYourself_def)
  note keeps = materialUpdate_keeps(4,5) [OF upd]
  have z: "kk = 0 \<longrightarrow> Ke k' = Ke k0 \<and> Pe k' = Pe k0"
    using p keeps by auto
  have w: "\<exists>m ps. material (?gps ! kk) = Some m \<and> stress (?gps ! kk) = Some ps \<and>
                 pNewDT k' = fractionLeftBy f m (mem kj) ps
                   (expanded N ?nd (mat_vec (B geo) dQ)) time dT (pNewDT kj)"
    if "dispatched M ?nd ?sec = Some f" for f
    using materialUpdate_dispatched [OF upd that] by (auto simp: fractionLeftBy_def)
  from run keeps z w show ?thesis by simp
qed

theorem computeYourself_cutback_outputs_witness:
  "cutBackAt (computeYourself exMaterial exNumerics triangle stretch stretch [0, 1] 1 triangleKernel)
     = Some 1 \<and>
   map_option Pe
     (finalKernel (computeYourself exMaterial exNumerics triangle stretch stretch [0, 1] 1 triangleKernel))
     = map_option Pe
         (finalKernel (computeYourself exMaterial exNumerics
            (triangle\<lparr>gaussPts := take 1 (gaussPts triangle)\<rparr>) stretch stretch [0, 1] 1 triangleKernel)) \<and>
   map_option Pe
     (finalKernel (computeYourself exMaterial exNumerics
        (triangle\<lparr>gaussPts := take 1 (gaussPts triangle)\<rparr>) stretch stretch [0, 1] 1 triangleKernel))
     = Some [1 / 4, 0, - 1 / 4, 0, 0, 0] \<and>
   map_option pNewDT
     (finalKernel (computeYourself exMaterial exNumerics triangle stretch stretch [0, 1] 1 triangleKernel))
     = Some (1 / 2)"
proof -
  define pre where "pre = computeYourself exMaterial exNumerics
            (triangle\<lparr>gaussPts := take 1 (gaussPts triangle)\<rparr>) stretch stretch [0, 1] 1 triangleKernel"
  define kj where "kj = the (finalKernel pre)"
  define u where "u = materialUpdate exMaterial exNumerics (nDim triangle) (sectionType triangle)
              stretch [0, 1] 1 triangleGeometry (gaussPts triangle ! 1) kj"
  define g' where "g' = fst (projr u)"
  define k' where "k' = snd (projr u)"
  have kk: "1 < length (gaussPts triangle)" by (simp add: triangle_def)
  have prefix: "pre = Inr (Completed [tough] kj)"
    by (simp add: kj_def pre_def ex_defs Let_def upt_rec)
  have pe: "Pe kj = [1 / 4, 0, - 1 / 4, 0, 0, 0]"
    by (simp add: kj_def pre_def ex_defs Let_def upt_rec)
  have geo: "geometry (gaussPts triangle ! 1) = Some triangleGeometry"
    by (simp add: triangle_def brittle_def)
  have upd: "u = Inr (g', k')"
    by (simp add: g'_def k'_def u_def kj_def pre_def ex_defs Let_def upt_rec)
  have half: "pNewDT k' = 1 / 2"
    by (simp add: k'_def u_def kj_def pre_def ex_defs Let_def upt_rec)
  then have cut: "pNewDT k' < 1" by simp
  from computeYourself_cutback_outputs [OF kk prefix [unfolded pre_def] geo upd [unfolded u_def] cut]
  have run: "computeYourself exMaterial exNumerics triangle stretch stretch [0, 1] 1 triangleKernel
          = Inr (CutBackRequested 1 ([tough] @ g' # drop (Suc 1) (gaussPts triangle)) k')"
    and same: "Pe k' = Pe kj"
    by blast+
  show ?thesis
    unfolding pre_def [symmetric] by (simp add: run prefix same pe half)
qed

text \<open>
  C9. If \<^verbatim>\<open>computeYourself\<close> returns at Gauss point \<open>kk\<close> because the material asked
  for a smaller step there, nothing is rolled back. For every Gauss point \<open>i \<le> kk\<close> the
  stress view holds the stress the stress update returned when it was called on the
  pre-call stress, and for \<open>nDim\<close> 2 and 3 the strain view holds the sum of the
  pre-call strain and the strain increment in 6-component form. The views share no
  cell, the section type is one the dimension dispatches a stress update for, and the
  strain increment in 6-component form has its 6 components.
\<close>

theorem computeYourself_cutback_keeps_state:
  assumes run: "computeYourself M N el QTotal dQ time dT k0 = Inr (CutBackRequested kk gps' k')"
      and ap: "apart (views (gaussPts el))"
      and d: "dispatched M (nDim el) (sectionType el) = Some f"
      and i: "i \<le> kk"
      and len: "\<forall>geo. geometry (gaussPts el ! i) = Some geo \<longrightarrow>
                  length (expanded N (nDim el) (mat_vec (B geo) dQ)) = 6"
  shows "\<exists>passed ki geo m ps.
           computeYourself M N (el\<lparr>gaussPts := take i (gaussPts el)\<rparr>) QTotal dQ time dT k0
             = Inr (Completed passed ki) \<and>
           i < length (gaussPts el) \<and> geometry (gaussPts el ! i) = Some geo \<and>
           material (gaussPts el ! i) = Some m \<and> stress (gaussPts el ! i) = Some ps \<and>
           read6 (mem k') ps
             = stressLeftBy f m (mem k0) ps (expanded N (nDim el) (mat_vec (B geo) dQ))
                 time dT (pNewDT ki) \<and>
           (\<forall>m' sig C66 p'.
              f m (read6 (mem k0) ps) (expanded N (nDim el) (mat_vec (B geo) dQ)) time dT (pNewDT ki)
                = (m', sig, C66, p') \<longrightarrow>
              length sig = 6 \<longrightarrow> read6 (mem k') ps = sig) \<and>
           (nDim el = 2 \<or> nDim el = 3 \<longrightarrow>
              (\<exists>pe. strain (gaussPts el ! i) = Some pe \<and>
                 read6 (mem k') pe
                   = vec_add (read6 (mem k0) pe) (expanded N (nDim el) (mat_vec (B geo) dQ))))"
proof -
  let ?nd = "nDim el" and ?sec = "sectionType el"
  from i have "length ([] :: 'a GaussPt list) + i \<le> kk" by simp
  from gaussPtLoop_keeps [OF run [unfolded computeYourself_def] ap d this]
  obtain passed ki geo m ps where
    r: "gaussPtLoop M N ?nd ?sec dQ time dT [] (take i (gaussPts el)) k0
          = Inr (Completed passed ki)"
    and g: "i < length (gaussPts el)" "geometry (gaussPts el ! i) = Some geo"
       "material (gaussPts el ! i) = Some m" "stress (gaussPts el ! i) = Some ps"
    and s: "read6 (mem k') ps
             = stressLeftBy f m (mem k0) ps (expanded N ?nd (mat_vec (B geo) dQ))
                 time dT (pNewDT ki)"
    and e: "?nd \<noteq> 1 \<longrightarrow> (\<exists>pe. strain (gaussPts el ! i) = Some pe \<and>
              read6 (mem k') pe = incremented (mem k0) pe (expanded N ?nd (mat_vec (B geo) dQ)))"
    by blast
  let ?dE6 = "expanded N ?nd (mat_vec (B geo) dQ)"
  from len g(2) have l: "length ?dE6 = 6" by simp
  have t: "\<forall>m' sig C66 p'.
              f m (read6 (mem k0) ps) ?dE6 time dT (pNewDT ki) = (m', sig, C66, p') \<longrightarrow>
              length sig = 6 \<longrightarrow> read6 (mem k') ps = sig"
    using s by (simp add: stressLeftBy_def read6_write6_same)
  from e have e': "?nd = 2 \<or> ?nd = 3 \<longrightarrow> (\<exists>pe. strain (gaussPts el ! i) = Some pe \<and>
              read6 (mem k') pe = vec_add (read6 (mem k0) pe) ?dE6)"
    by (auto simp: incremented_eq [OF l])
  have r': "computeYourself M N (el\<lparr>gaussPts := take i (gaussPts el)\<rparr>) QTotal dQ time dT k0
             = Inr (Completed passed ki)"
    using r by (simp add: computeYourself_def)
  show ?thesis
    by (intro exI [of _ passed] exI [of _ ki] exI [of _ geo] exI [of _ m] exI [of _ ps] conjI)
       (rule r' g s t e')+
qed

theorem computeYourself_cutback_keeps_state_witness:
  "\<exists>k'. finalKernel (computeYourself exMaterial exNumerics triangle stretch stretch [0, 1] 1 loadedKernel)
       = Some k' \<and>
     read6 (mem loadedKernel) 0 = [3, 0, 0, 0, 0, 0] \<and> read6 (mem k') 0 = [4, 0, 0, 0, 0, 0] \<and>
     read6 (mem loadedKernel) 6 = [2, 0, 0, 0, 0, 0] \<and> read6 (mem k') 6 = [3, 0, 0, 0, 0, 0]"
proof -
  have "\<exists>gps' k'. computeYourself exMaterial exNumerics triangle stretch stretch [0, 1] 1 loadedKernel
          = Inr (CutBackRequested 1 gps' k')"
    by (simp add: ex_defs loadedKernel_def loadedMemory_def Let_def upt_rec)
  then obtain gps' k' where
    run: "computeYourself exMaterial exNumerics triangle stretch stretch [0, 1] 1 loadedKernel
          = Inr (CutBackRequested 1 gps' k')" by blast
  have ap: "apart (views (gaussPts triangle))"
    by (simp add: triangle_def tough_def brittle_def views_def)
  have d: "dispatched exMaterial (nDim triangle) (sectionType triangle) = Some unitStiffness"
    by (simp add: dispatched_def triangle_def exMaterial_def)
  have i: "(0::nat) \<le> 1" by simp
  have ev: "expanded exNumerics 2 (mat_vec triangleB stretch) = [1, 0, 0, 0, 0, 0]"
    by (simp add: expanded_def exNumerics_def mat_vec_def dot_def triangleB_def stretch_def)
  have len: "\<forall>geo. geometry (gaussPts triangle ! 0) = Some geo \<longrightarrow>
               length (expanded exNumerics (nDim triangle) (mat_vec (B geo) stretch)) = 6"
    by (simp add: triangle_def tough_def triangleGeometry_def ev)
  have r0: "read6 loadedMemory 0 = [3, 0, 0, 0, 0, 0]" and r6: "read6 loadedMemory 6 = [2, 0, 0, 0, 0, 0]"
    by (simp_all add: read6_def loadedMemory_def upt_rec)
  have sl: "stressLeftBy unitStiffness m loadedMemory 0 [1, 0, 0, 0, 0, 0] [0, 1] 1 p
              = [4, 0, 0, 0, 0, 0]" for m p
    by (simp add: stressLeftBy_def unitStiffness_def r0 vec_add_def read6_write6_same)
  have va: "vec_add [2, 0, 0, 0, 0, 0] [1, 0, 0, 0, 0, 0] = [3, 0, 0, 0, 0, 0]"
    by (simp add: vec_add_def)
  from computeYourself_cutback_keeps_state [OF run ap d i len]
  have "read6 (mem k') 0 = [4, 0, 0, 0, 0, 0] \<and> read6 (mem k') 6 = [3, 0, 0, 0, 0, 0]"
    by (auto simp: triangle_def tough_def triangleGeometry_def triangleKernel_def loadedKernel_def
          ev sl r6 va)
  with run r0 r6 show ?thesis by (simp add: loadedKernel_def triangleKernel_def)
qed

text \<open>
  C2, at the bar. The one-dimensional branch calls the material and stops: the bar's
  second node moves by 1, the strain increment in 6-component form is
  \<open>[1, 0, 0, 0, 0, 0]\<close>, the stress behind the view at 0 becomes that, and the strain
  behind the view at 6 is still zero when the call has completed.
\<close>

theorem computeYourself_bar_strain_not_accumulated:
  "viewAfter (computeYourself exMaterial exNumerics bar [0, 1] [0, 1] [0, 1] 1 (barKernel [7])) 0
     = Some [1, 0, 0, 0, 0, 0] \<and>
   viewAfter (computeYourself exMaterial exNumerics bar [0, 1] [0, 1] [0, 1] 1 (barKernel [7])) 6
     = Some [0, 0, 0, 0, 0, 0] \<and>
   expanded exNumerics (nDim bar) (mat_vec [[- 1, 1]] [0, 1]) = [1, 0, 0, 0, 0, 0] \<and>
   cutBackAt (computeYourself exMaterial exNumerics bar [0, 1] [0, 1] [0, 1] 1 (barKernel [7])) = None"
  by (simp add: ex_defs viewAfter_def expanded_def Let_def upt_rec)

text \<open>
  The same for every one-dimensional element whose views share no cell: a call of
  \<^verbatim>\<open>computeYourself\<close> leaves the strain of every Gauss point as it was.
\<close>

lemma apart_stress_strain:
  assumes "apart (views gps)" "g \<in> set gps" "gp \<in> set gps"
      and "stress g = Some ps" "strain gp = Some pe"
  shows "ps + 6 \<le> pe \<or> pe + 6 \<le> ps"
  using assms
proof (induction gps)
  case Nil
  then show ?case by simp
next
  case (Cons x xs)
  note ap = apart_views_Cons [OF Cons.prems(1)]
  consider "g = x" "gp = x" | "g = x" "gp \<in> set xs" | "g \<in> set xs" "gp = x"
    | "g \<in> set xs" "gp \<in> set xs"
    using Cons.prems(2,3) by auto
  then show ?case
  proof cases
    case 1
    with ap(4) Cons.prems(4,5) show ?thesis by simp
  next
    case 2
    from strain_in_views [OF 2(2) Cons.prems(5)] ap(2) [of ps pe] 2(1) Cons.prems(4)
    show ?thesis by simp
  next
    case 3
    from stress_in_views [OF 3(1) Cons.prems(4)] ap(3) [of pe ps] 3(2) Cons.prems(5)
    show ?thesis by auto
  next
    case 4
    with Cons.IH ap(1) Cons.prems(4,5) show ?thesis by simp
  qed
qed

lemma gaussPtLoop_1D_frame:
  assumes "finalKernel (gaussPtLoop M N 1 sec dQ time dT passed gs k) = Some k'"
      and "\<forall>g \<in> set gs. \<forall>ps. stress g = Some ps \<longrightarrow> a < ps \<or> ps + 6 \<le> a"
  shows "mem k' a = mem k a"
  using assms
proof (induction gs arbitrary: passed k)
  case Nil
  then show ?case by simp
next
  case (Cons g gs)
  from Cons.prems(1) obtain geo where geo: "geometry g = Some geo"
    by (cases "geometry g") simp_all
  from Cons.prems(1) geo obtain g' k1 where
    u: "materialUpdate M N 1 sec dQ time dT geo g k = Inr (g', k1)"
    by (cases "materialUpdate M N 1 sec dQ time dT geo g k") auto
  have "dispatched M 1 sec = Some (computeUniaxialStress M)"
    by (simp add: dispatched_def)
  from materialUpdate_dispatched [OF u this] Cons.prems(2)
  have "mem k1 a = mem k a"
    by (auto simp: write6_outside)
  moreover have "mem k' a = mem k1 a"
  proof (cases "pNewDT k1 < 1")
    case True
    with Cons.prems(1) geo u show ?thesis by simp
  next
    case False
    with Cons.prems(1) geo u have
      "finalKernel (gaussPtLoop M N 1 sec dQ time dT (passed @ [g']) gs (assemble geo k1)) = Some k'"
      by simp
    from Cons.IH [OF this] Cons.prems(2) show ?thesis by (simp add: assemble_def)
  qed
  ultimately show ?case by simp
qed

lemma computeYourself_1D_strain_untouched:
  assumes nd: "nDim el = 1"
      and run: "finalKernel (computeYourself M N el QTotal dQ time dT k0) = Some k'"
      and ap: "apart (views (gaussPts el))"
      and gp: "gp \<in> set (gaussPts el)" "strain gp = Some pe"
  shows "read6 (mem k') pe = read6 (mem k0) pe"
proof (rule read6_cong)
  fix a assume a: "pe \<le> a" "a < pe + 6"
  show "mem k' a = mem k0 a"
  proof (rule gaussPtLoop_1D_frame [OF run [unfolded computeYourself_def nd]], intro ballI allI impI)
    fix g ps assume "g \<in> set (gaussPts el)" "stress g = Some ps"
    from apart_stress_strain [OF ap this(1) gp(1) this(2) gp(2)] a
    show "a < ps \<or> ps + 6 \<le> a" by linarith
  qed
qed

text \<open>
  The two- and three-dimensional branches do accumulate: after a call, every Gauss point
  the loop reached holds its pre-call strain incremented by the strain increment in
  6-component form, whether or not its section type dispatches a stress update.
\<close>

lemma materialUpdate_strain:
  assumes u: "materialUpdate M N nd sec dQ time dT geo gp k = Inr (gp', k')"
      and nd: "nd = 2 \<or> nd = 3"
      and ap: "\<And>ps pe. stress gp = Some ps \<Longrightarrow> strain gp = Some pe \<Longrightarrow> ps + 6 \<le> pe \<or> pe + 6 \<le> ps"
  shows "\<exists>pe. strain gp = Some pe \<and>
           read6 (mem k') pe = incremented (mem k) pe (expanded N nd (mat_vec (B geo) dQ))"
proof (cases "dispatched M nd sec")
  case None
  from materialUpdate_undispatched [OF u None] nd show ?thesis
    by (auto simp: incremented_def)
next
  case (Some f)
  from materialUpdate_contents [OF u Some ap] nd show ?thesis by auto
qed

lemma gaussPtLoop_strain:
  assumes "finalKernel (gaussPtLoop M N nd sec dQ time dT passed gs k) = Some k'"
      and "apart (views gs)"
      and "nd = 2 \<or> nd = 3"
      and "i < length gs"
      and "\<forall>kk. cutBackAt (gaussPtLoop M N nd sec dQ time dT passed gs k) = Some kk
             \<longrightarrow> length passed + i \<le> kk"
  shows "\<exists>geo pe. geometry (gs ! i) = Some geo \<and> strain (gs ! i) = Some pe \<and>
           read6 (mem k') pe = incremented (mem k) pe (expanded N nd (mat_vec (B geo) dQ))"
  using assms
proof (induction gs arbitrary: passed k i)
  case Nil
  then show ?case by simp
next
  case (Cons g gs)
  note ap = apart_views_Cons [OF Cons.prems(2)]
  note nd = Cons.prems(3)
  let ?dE6 = "\<lambda>geo. expanded N nd (mat_vec (B geo) dQ)"
  from Cons.prems(1) obtain geo where geo: "geometry g = Some geo"
    by (cases "geometry g") simp_all
  from Cons.prems(1) geo obtain g1 k1 where
    u: "materialUpdate M N nd sec dQ time dT geo g k = Inr (g1, k1)"
    by (cases "materialUpdate M N nd sec dQ time dT geo g k") auto
  show ?case
  proof (cases i)
    case 0
    from materialUpdate_strain [OF u nd ap(4)] obtain pe where
      pe: "strain g = Some pe" "read6 (mem k1) pe = incremented (mem k) pe (?dE6 geo)"
      by blast
    have "read6 (mem k') pe = read6 (mem k1) pe"
    proof (cases "pNewDT k1 < 1")
      case True
      with Cons.prems(1) geo u show ?thesis by simp
    next
      case False
      with Cons.prems(1) geo u have f:
        "finalKernel (gaussPtLoop M N nd sec dQ time dT (passed @ [g1]) gs (assemble geo k1)) = Some k'"
        by simp
      have "mem k' a = mem (assemble geo k1) a" if "pe \<le> a" "a < pe + 6" for a
      proof (rule gaussPtLoop_frame [OF f], rule ballI)
        fix p assume "p \<in> set (views gs)"
        from ap(3) [OF pe(1) this] that show "a < p \<or> p + 6 \<le> a" by linarith
      qed
      then have "read6 (mem k') pe = read6 (mem (assemble geo k1)) pe" by (rule read6_cong)
      then show ?thesis by (simp add: assemble_def)
    qed
    with pe geo 0 show ?thesis by simp
  next
    case (Suc j)
    have nc: "\<not> pNewDT k1 < 1"
    proof
      assume "pNewDT k1 < 1"
      with geo u have "cutBackAt (gaussPtLoop M N nd sec dQ time dT passed (g # gs) k)
                         = Some (length passed)" by simp
      with Cons.prems(5) Suc show False by simp
    qed
    with geo u have e: "gaussPtLoop M N nd sec dQ time dT passed (g # gs) k
        = gaussPtLoop M N nd sec dQ time dT (passed @ [g1]) gs (assemble geo k1)"
      by simp
    from Cons.prems(1) have f:
      "finalKernel (gaussPtLoop M N nd sec dQ time dT (passed @ [g1]) gs (assemble geo k1)) = Some k'"
      unfolding e .
    from Cons.prems(4) Suc have j: "j < length gs" by simp
    from Cons.prems(5) Suc have c:
      "\<forall>kk. cutBackAt (gaussPtLoop M N nd sec dQ time dT (passed @ [g1]) gs (assemble geo k1)) = Some kk
             \<longrightarrow> length (passed @ [g1]) + j \<le> kk"
      unfolding e by simp
    from Cons.IH [OF f ap(1) nd j c] obtain geo' pe where
      s: "geometry (gs ! j) = Some geo'" "strain (gs ! j) = Some pe"
         "read6 (mem k') pe = incremented (mem (assemble geo k1)) pe (?dE6 geo')"
      by blast
    have pv: "pe \<in> set (views gs)" by (rule strain_in_views [OF nth_mem [OF j] s(2)])
    have "mem (assemble geo k1) a = mem k a" if "pe \<le> a" "a < pe + 6" for a
    proof -
      have "mem k1 a = mem k a"
      proof (rule materialUpdate_frame [OF u])
        fix x assume "stress g = Some x"
        from ap(2) [OF this pv] that show "a < x \<or> x + 6 \<le> a" by linarith
      next
        fix x assume "strain g = Some x"
        from ap(3) [OF this pv] that show "a < x \<or> x + 6 \<le> a" by linarith
      qed
      then show ?thesis by (simp add: assemble_def)
    qed
    then have "incremented (mem (assemble geo k1)) pe (?dE6 geo') = incremented (mem k) pe (?dE6 geo')"
      by (rule incremented_agree)
    with s Suc show ?thesis by simp
  qed
qed

lemma computeYourself_2D_3D_strain_accumulated:
  assumes "finalKernel (computeYourself M N el QTotal dQ time dT k0) = Some k'"
      and "apart (views (gaussPts el))"
      and "nDim el = 2 \<or> nDim el = 3"
      and "i < length (gaussPts el)"
      and "\<forall>kk. cutBackAt (computeYourself M N el QTotal dQ time dT k0) = Some kk \<longrightarrow> i \<le> kk"
  shows "\<exists>geo pe. geometry (gaussPts el ! i) = Some geo \<and> strain (gaussPts el ! i) = Some pe \<and>
           read6 (mem k') pe
             = incremented (mem k0) pe (expanded N (nDim el) (mat_vec (B geo) dQ))"
  using gaussPtLoop_strain [of M N "nDim el" "sectionType el" dQ time dT "[]" "gaussPts el" k0 k' i]
    assms by (simp add: computeYourself_def)

end
